theory Spec2Isabelle
  imports Main
begin

section \<open>Data model\<close>

text \<open>
  The \<open>User\<close> table of the Prisma schema: \<open>id\<close> is the primary key, \<open>username\<close> and
  \<open>email\<close> are unique, \<open>refreshToken\<close> is the only nullable column.
\<close>

record user =
  user_id :: string
  username :: string
  email :: string
  password :: string
  refreshToken :: "string option"

text \<open>\<open>CreateUserDto\<close>, the body of a signup request.\<close>

record createUserDto =
  dto_username :: string
  dto_email :: string
  dto_password :: string

text \<open>The user table: its rows, in insertion order.\<close>

type_synonym store = "user list"

text \<open>
  Exceptions of the source as values. \<open>new UnauthorizedException()\<close> without an argument
  carries the framework's default message, written out here.
\<close>

datatype exn =
    UnauthorizedException string
  | NotFoundException string
  | StoreError string
  | TypeError string
  | HashError string
  | JwtError string
  | Misconfiguration string

section \<open>Collaborators\<close>

subsection \<open>The user store\<close>

text \<open>
  Modelled from the spec: \<open>UsersService.findOne(email, throwError = true)\<close> of
  \<open>users.service.ts\<close>, which is not under src/. The spec gives
  \<open>findByEmail(email) -> User | absent\<close>; with the flag \<open>false\<close>, as signup calls it,
  absence is a value (\<open>null\<close>), with the default flag it is a NotFound error. A lookup
  reads the table and hands it back as it was.
\<close>

definition findOne :: "string \<Rightarrow> bool \<Rightarrow> store \<Rightarrow> (exn + user option) \<times> store" where
  "findOne mail throwError st =
     (case find (\<lambda>u. email u = mail) st of
        Some u \<Rightarrow> (Inr (Some u), st)
      | None \<Rightarrow> if throwError then (Inl (NotFoundException ''User not found''), st)
                else (Inr None, st))"

text \<open>
  Modelled from the spec: \<open>UsersService.findOneById(id)\<close>, not under src/. The spec gives
  \<open>findById(id) -> User | fails NotFound\<close>.
\<close>

definition findOneById :: "string \<Rightarrow> store \<Rightarrow> (exn + user) \<times> store" where
  "findOneById uid st =
     (case find (\<lambda>u. user_id u = uid) st of
        Some u \<Rightarrow> (Inr u, st)
      | None \<Rightarrow> (Inl (NotFoundException ''User not found''), st))"

text \<open>
  Modelled from the spec: \<open>UsersService.update(id, {refreshToken})\<close>, not under src/. The
  spec gives \<open>updateRefreshTokenHash(id, hashOrNull) -> User\<close>, and lets store failures
  propagate: updating a row that does not exist is such a failure. The row with the
  given primary key gets the new value of the column; no other row and no other column
  changes.
\<close>

definition update :: "string \<Rightarrow> string option \<Rightarrow> store \<Rightarrow> (exn + user) \<times> store" where
  "update uid h st =
     (case find (\<lambda>u. user_id u = uid) st of
        None \<Rightarrow> (Inl (NotFoundException ''User not found''), st)
      | Some u \<Rightarrow>
          (Inr (u\<lparr>refreshToken := h\<rparr>),
           map (\<lambda>x. if user_id x = uid then x\<lparr>refreshToken := h\<rparr> else x) st))"

text \<open>
  Modelled from the spec: \<open>UsersService.create(dto)\<close>, not under src/. The spec gives
  \<open>create(data) -> User\<close> and a user with a hashed password and no refresh-token hash;
  the schema makes \<open>id\<close>, \<open>username\<close> and \<open>email\<close> unique, so an insert that repeats one
  of them is a store failure. \<open>newId\<close> is the identifier the database generates;
  \<open>encrypt\<close> is the one-way hasher.
\<close>

definition create :: "(string \<Rightarrow> string) \<Rightarrow> string \<Rightarrow> createUserDto \<Rightarrow> store \<Rightarrow> (exn + user) \<times> store" where
  "create encrypt newId dto st =
     (if list_ex (\<lambda>u. user_id u = newId \<or> username u = dto_username dto \<or> email u = dto_email dto) st
      then (Inl (StoreError ''Unique constraint failed''), st)
      else (let newUser = \<lparr>user_id = newId, username = dto_username dto, email = dto_email dto,
                            password = encrypt (dto_password dto), refreshToken = None\<rparr>
            in (Inr newUser, st @ [newUser])))"

subsection \<open>The hash comparator\<close>

text \<open>
  Modelled from the spec: \<open>compareValueWithHash(value, hash)\<close> of \<open>utils/bcrypt\<close>, not
  under src/: the one-way comparator. \<open>cmp\<close> is the comparison of a value with a stored
  hash string; a \<open>null\<close> hash is not a hash, and the comparison raises.
\<close>

definition compareValueWithHash :: "(string \<Rightarrow> string \<Rightarrow> bool) \<Rightarrow> string \<Rightarrow> string option \<Rightarrow> exn + bool" where
  "compareValueWithHash cmp v h =
     (case h of
        None \<Rightarrow> Inl (HashError ''data and hash arguments required'')
      | Some hash \<Rightarrow> Inr (cmp v hash))"

section \<open>Credential and refresh-token verification\<close>

text \<open>
  \<open>validateUser\<close>: the body of the \<open>try\<close> block, then the \<open>catch\<close> that replaces every
  exception by one \<open>UnauthorizedException\<close>. Reading \<open>password\<close> of \<open>null\<close> is a
  \<open>TypeError\<close>.
\<close>

definition validateUser_try :: "(string \<Rightarrow> string \<Rightarrow> bool) \<Rightarrow> string \<Rightarrow> string \<Rightarrow> store \<Rightarrow> (exn + user) \<times> store" where
  "validateUser_try cmp mail pw st =
     (case findOne mail True st of
        (Inl e, st1) \<Rightarrow> (Inl e, st1)
      | (Inr None, st1) \<Rightarrow> (Inl (TypeError ''Cannot read properties of null''), st1)
      | (Inr (Some usr), st1) \<Rightarrow>
          (case compareValueWithHash cmp pw (Some (password usr)) of
             Inl e \<Rightarrow> (Inl e, st1)
           | Inr isAuthorized \<Rightarrow>
               if \<not> isAuthorized then (Inl (UnauthorizedException ''Unauthorized''), st1)
               else (Inr usr, st1)))"

definition validateUser :: "(string \<Rightarrow> string \<Rightarrow> bool) \<Rightarrow> string \<Rightarrow> string \<Rightarrow> store \<Rightarrow> (exn + user) \<times> store" where
  "validateUser cmp mail pw st =
     (case validateUser_try cmp mail pw st of
        (Inl error, st1) \<Rightarrow> (Inl (UnauthorizedException ''Credentials are not valid.''), st1)
      | (Inr usr, st1) \<Rightarrow> (Inr usr, st1))"

definition verifyUserRefreshToken_try :: "(string \<Rightarrow> string \<Rightarrow> bool) \<Rightarrow> string \<Rightarrow> string \<Rightarrow> store \<Rightarrow> (exn + user) \<times> store" where
  "verifyUserRefreshToken_try cmp token uid st =
     (case findOneById uid st of
        (Inl e, st1) \<Rightarrow> (Inl e, st1)
      | (Inr usr, st1) \<Rightarrow>
          (case compareValueWithHash cmp token (refreshToken usr) of
             Inl e \<Rightarrow> (Inl e, st1)
           | Inr authenticated \<Rightarrow>
               if \<not> authenticated then (Inl (UnauthorizedException ''Unauthorized''), st1)
               else (Inr usr, st1)))"

definition verifyUserRefreshToken :: "(string \<Rightarrow> string \<Rightarrow> bool) \<Rightarrow> string \<Rightarrow> string \<Rightarrow> store \<Rightarrow> (exn + user) \<times> store" where
  "verifyUserRefreshToken cmp token uid st =
     (case verifyUserRefreshToken_try cmp token uid st of
        (Inl error, st1) \<Rightarrow> (Inl (UnauthorizedException ''Refresh token is not valid.''), st1)
      | (Inr usr, st1) \<Rightarrow> (Inr usr, st1))"

section \<open>Token generation\<close>

subsection \<open>Numbers, dates and the environment\<close>

text \<open>
  \<open>process.env\<close>: a variable is a string or absent (\<open>undefined\<close>). Where the source
  uses an absent variable as a string (\<open>parseInt\<close>, a template literal), JavaScript
  converts \<open>undefined\<close> to the string \<open>undefined\<close>.
\<close>

type_synonym env = "string \<Rightarrow> string option"

definition toString_js :: "string option \<Rightarrow> string" where
  "toString_js v = (case v of None \<Rightarrow> ''undefined'' | Some s \<Rightarrow> s)"

text \<open>
  The numbers of this code are integers or \<open>NaN\<close>: \<open>None\<close> is \<open>NaN\<close>. A \<open>Date\<close> is its
  time value in milliseconds, \<open>None\<close> for an invalid date. Integer arithmetic is the
  arithmetic of doubles below \<open>2^53\<close>; a sum beyond it is beyond the range of \<open>Date\<close>
  (\<open>8.64 * 10^15\<close>) for every clock reading between 1970 and the year 13000, and
  \<open>timeClip\<close> makes the date invalid in both.
\<close>

definition strWhiteSpaceChar :: "char \<Rightarrow> bool" where
  "strWhiteSpaceChar c = (of_char c \<in> {9, 10, 11, 12, 13, 32 :: nat})"

definition digitValue :: "char \<Rightarrow> nat option" where
  "digitValue c =
     (let n = (of_char c :: nat) in
      if 48 \<le> n \<and> n \<le> 57 then Some (n - 48)
      else if 97 \<le> n \<and> n \<le> 122 then Some (n - 87)
      else if 65 \<le> n \<and> n \<le> 90 then Some (n - 55)
      else None)"

fun radixDigits :: "nat \<Rightarrow> string \<Rightarrow> nat list" where
  "radixDigits R [] = []"
| "radixDigits R (c # cs) =
     (case digitValue c of
        None \<Rightarrow> []
      | Some d \<Rightarrow> if d < R then d # radixDigits R cs else [])"

text \<open>
  \<open>parseInt(string)\<close> with no radix: leading white space is skipped (the ASCII white
  space characters: a string here is a list of bytes), a sign is read, a prefix \<open>0x\<close> or
  \<open>0X\<close> selects radix 16, and the longest run of digits is the value; with no digit the
  result is \<open>NaN\<close>. What follows the digits is ignored.
\<close>

definition parseInt :: "string \<Rightarrow> int option" where
  "parseInt inputString =
     (let S = dropWhile strWhiteSpaceChar inputString;
          sign = (if take 1 S = ''-'' then - 1 else 1 :: int);
          S1 = (if take 1 S = ''+'' \<or> take 1 S = ''-'' then drop 1 S else S);
          hex = (take 2 S1 = ''0x'' \<or> take 2 S1 = ''0X'');
          R = (if hex then 16 else 10 :: nat);
          S2 = (if hex then drop 2 S1 else S1);
          Z = radixDigits R S2
      in if Z = [] then None
         else Some (sign * int (foldl (\<lambda>acc d. acc * R + d) 0 Z)))"

definition num_add :: "int option \<Rightarrow> int option \<Rightarrow> int option" where
  "num_add a b = (case a of None \<Rightarrow> None | Some x \<Rightarrow> (case b of None \<Rightarrow> None | Some y \<Rightarrow> Some (x + y)))"

definition timeClip :: "int option \<Rightarrow> int option" where
  "timeClip t = (case t of None \<Rightarrow> None
                 | Some v \<Rightarrow> if \<bar>v\<bar> > 8640000000000000 then None else Some v)"

subsection \<open>generateTokens\<close>

record tokenPayload =
  userId :: string

record jwtSignOptions =
  secret :: "string option"
  expiresIn :: string

record tokenPair =
  tp_expireAccessToken :: "int option"
  tp_expireRefreshToken :: "int option"
  tp_accessToken :: string
  tp_refreshToken :: string

type_synonym signer = "tokenPayload \<Rightarrow> jwtSignOptions \<Rightarrow> exn + string"

text \<open>
  \<open>generateTokens\<close>. \<open>now1\<close> and \<open>now2\<close> are what the two \<open>new Date()\<close> read from the
  clock; \<open>sign\<close> is \<open>JwtService.sign\<close> of the framework, which may raise.
\<close>

definition generateTokens :: "signer \<Rightarrow> env \<Rightarrow> int \<Rightarrow> int \<Rightarrow> string \<Rightarrow> exn + tokenPair" where
  "generateTokens sign penv now1 now2 uid =
     (let expireAccessToken =
            timeClip (num_add (Some now1)
              (parseInt (toString_js (penv ''JWT_ACCESS_TOKEN_EXPIRATION_MS''))));
          expireRefreshToken =
            timeClip (num_add (Some now2)
              (parseInt (toString_js (penv ''JWT_REFRESH_TOKEN_EXPIRATION_MS''))));
          tokenPayload = \<lparr>userId = uid\<rparr>
      in case sign tokenPayload
                \<lparr>secret = penv ''JWT_ACCESS_TOKEN_SECRET'',
                 expiresIn = toString_js (penv ''JWT_ACCESS_TOKEN_EXPIRATION_MS'') @ ''ms''\<rparr> of
           Inl e \<Rightarrow> Inl e
         | Inr accessToken \<Rightarrow>
             (case sign tokenPayload
                     \<lparr>secret = penv ''JWT_REFRESH_TOKEN_SECRET'',
                      expiresIn = toString_js (penv ''JWT_REFRESH_TOKEN_EXPIRATION_MS'') @ ''ms''\<rparr> of
                Inl e \<Rightarrow> Inl e
              | Inr refreshTok \<Rightarrow>
                  Inr \<lparr>tp_expireAccessToken = expireAccessToken,
                       tp_expireRefreshToken = expireRefreshToken,
                       tp_accessToken = accessToken,
                       tp_refreshToken = refreshTok\<rparr>))"

section \<open>Cookies\<close>

text \<open>
  The response is the sink: the calls made on it, oldest first. \<open>response.cookie\<close>
  serialises the cookie when it is called: with an expiry that is an invalid date it
  raises a \<open>TypeError\<close> and leaves the response as it was, otherwise it adds one call.
  \<open>response.clearCookie\<close> adds one call, with a fixed expiry of its own. Neither looks at
  the earlier calls.
\<close>

record cookieOptions =
  httpOnly :: bool
  secure :: bool
  expires :: "int option"

datatype call = Cookie string string cookieOptions | ClearCookie string

type_synonym response = "call list"

definition cookie :: "string \<Rightarrow> string \<Rightarrow> cookieOptions \<Rightarrow> response \<Rightarrow> exn + response" where
  "cookie name val opts res =
     (case expires opts of
        None \<Rightarrow> Inl (TypeError ''option expires is invalid'')
      | Some t \<Rightarrow> Inr (res @ [Cookie name val opts]))"

definition clearCookie :: "string \<Rightarrow> response \<Rightarrow> response" where
  "clearCookie name res = res @ [ClearCookie name]"

text \<open>The cookies a client holds after the calls of a response, by name.\<close>

fun jar :: "response \<Rightarrow> (string \<rightharpoonup> string \<times> cookieOptions) \<Rightarrow> (string \<rightharpoonup> string \<times> cookieOptions)" where
  "jar [] j = j"
| "jar (Cookie name val opts # cs) j = jar cs (j(name \<mapsto> (val, opts)))"
| "jar (ClearCookie name # cs) j = jar cs (j(name := None))"

definition ACCESS_TOKEN_COOKIE :: string where
  "ACCESS_TOKEN_COOKIE = ''Authentication''"

definition REFRESH_TOKEN_COOKIE :: string where
  "REFRESH_TOKEN_COOKIE = ''Refresh''"

text \<open>
  \<open>setCookies\<close>: the awaited update of the store, then the two calls of \<open>response.cookie\<close>.
  An exception of the first call leaves the store updated and the response as it was;
  an exception of the second leaves the first cookie in the response as well.
\<close>

definition setCookies ::
  "(string \<Rightarrow> string) \<Rightarrow> response \<Rightarrow> string \<Rightarrow> string \<Rightarrow> string \<Rightarrow> int option \<Rightarrow> int option
     \<Rightarrow> store \<Rightarrow> (exn + unit) \<times> store \<times> response" where
  "setCookies encrypt res uid accessToken refreshTok expireAccessToken expireRefreshToken st =
     (case update uid (Some (encrypt refreshTok)) st of
        (Inl e, st1) \<Rightarrow> (Inl e, st1, res)
      | (Inr _, st1) \<Rightarrow>
          (case cookie ACCESS_TOKEN_COOKIE accessToken
                  \<lparr>httpOnly = True, secure = True, expires = expireAccessToken\<rparr> res of
             Inl e \<Rightarrow> (Inl e, st1, res)
           | Inr res1 \<Rightarrow>
               (case cookie REFRESH_TOKEN_COOKIE refreshTok
                       \<lparr>httpOnly = True, secure = True, expires = expireRefreshToken\<rparr> res1 of
                  Inl e \<Rightarrow> (Inl e, st1, res1)
                | Inr res2 \<Rightarrow> (Inr (), st1, res2))))"

definition clearCookies :: "response \<Rightarrow> response" where
  "clearCookies res = clearCookie ACCESS_TOKEN_COOKIE (clearCookie REFRESH_TOKEN_COOKIE res)"

section \<open>Login, signup, logout\<close>

definition login ::
  "signer \<Rightarrow> (string \<Rightarrow> string) \<Rightarrow> env \<Rightarrow> int \<Rightarrow> int \<Rightarrow> user \<Rightarrow> response \<Rightarrow> store
     \<Rightarrow> (exn + unit) \<times> store \<times> response" where
  "login sign encrypt penv now1 now2 usr res st =
     (case generateTokens sign penv now1 now2 (user_id usr) of
        Inl e \<Rightarrow> (Inl e, st, res)
      | Inr t \<Rightarrow>
          setCookies encrypt res (user_id usr) (tp_accessToken t) (tp_refreshToken t)
            (tp_expireAccessToken t) (tp_expireRefreshToken t) st)"

definition signup ::
  "signer \<Rightarrow> (string \<Rightarrow> string) \<Rightarrow> env \<Rightarrow> string \<Rightarrow> int \<Rightarrow> int \<Rightarrow> createUserDto \<Rightarrow> response \<Rightarrow> store
     \<Rightarrow> (exn + unit) \<times> store \<times> response" where
  "signup sign encrypt penv newId now1 now2 userData res st =
     (case findOne (dto_email userData) False st of
        (Inl e, st1) \<Rightarrow> (Inl e, st1, res)
      | (Inr (Some existingUser), st1) \<Rightarrow>
          (Inl (UnauthorizedException ''User already exists.''), st1, res)
      | (Inr None, st1) \<Rightarrow>
          (case create encrypt newId userData st1 of
             (Inl e, st2) \<Rightarrow> (Inl e, st2, res)
           | (Inr newUser, st2) \<Rightarrow>
               (case generateTokens sign penv now1 now2 (user_id newUser) of
                  Inl e \<Rightarrow> (Inl e, st2, res)
                | Inr t \<Rightarrow>
                    setCookies encrypt res (user_id newUser) (tp_accessToken t) (tp_refreshToken t)
                      (tp_expireAccessToken t) (tp_expireRefreshToken t) st2)))"

definition logout :: "user \<Rightarrow> response \<Rightarrow> store \<Rightarrow> (exn + unit) \<times> store \<times> response" where
  "logout usr res st =
     (case update (user_id usr) None st of
        (Inl e, st1) \<Rightarrow> (Inl e, st1, res)
      | (Inr _, st1) \<Rightarrow> (Inr (), st1, clearCookies res))"

section \<open>Sequences of requests\<close>

text \<open>
  The five operations of the service as requests, each with what it reads from outside
  (the clock readings, the identifier the database generates). Every request has a
  response of its own; \<open>handle\<close> keeps the user table a request leaves behind, whether the
  request succeeds or raises.
\<close>

datatype request =
    Login user int int
  | Signup createUserDto string int int
  | Logout user
  | ValidateUser string string
  | VerifyUserRefreshToken string string

fun handle ::
  "signer \<Rightarrow> (string \<Rightarrow> string) \<Rightarrow> (string \<Rightarrow> string \<Rightarrow> bool) \<Rightarrow> env \<Rightarrow> request \<Rightarrow> store \<Rightarrow> store" where
  "handle sign encrypt cmp penv (Login usr now1 now2) st =
     fst (snd (login sign encrypt penv now1 now2 usr [] st))"
| "handle sign encrypt cmp penv (Signup userData newId now1 now2) st =
     fst (snd (signup sign encrypt penv newId now1 now2 userData [] st))"
| "handle sign encrypt cmp penv (Logout usr) st = fst (snd (logout usr [] st))"
| "handle sign encrypt cmp penv (ValidateUser mail pw) st = snd (validateUser cmp mail pw st)"
| "handle sign encrypt cmp penv (VerifyUserRefreshToken token uid) st =
     snd (verifyUserRefreshToken cmp token uid st)"

fun serve ::
  "signer \<Rightarrow> (string \<Rightarrow> string) \<Rightarrow> (string \<Rightarrow> string \<Rightarrow> bool) \<Rightarrow> env \<Rightarrow> request list \<Rightarrow> store \<Rightarrow> store" where
  "serve sign encrypt cmp penv [] st = st"
| "serve sign encrypt cmp penv (r # rs) st =
     serve sign encrypt cmp penv rs (handle sign encrypt cmp penv r st)"

text \<open>The refresh-token hashes the table holds for a user id.\<close>

definition storedHashes :: "string \<Rightarrow> store \<Rightarrow> string list" where
  "storedHashes uid st =
     concat (map (\<lambda>u. case refreshToken u of None \<Rightarrow> [] | Some h \<Rightarrow> [h])
                 (filter (\<lambda>u. user_id u = uid) st))"

text \<open>The table with the refresh-token column of the rows of a user id set to \<open>h\<close>.\<close>

definition withHash :: "string \<Rightarrow> string option \<Rightarrow> store \<Rightarrow> store" where
  "withHash uid h st = map (\<lambda>x. if user_id x = uid then x\<lparr>refreshToken := h\<rparr> else x) st"

text \<open>A request that can store a hash for the user id: a login of it, a signup that gets it.\<close>

fun issuesFor :: "string \<Rightarrow> request \<Rightarrow> bool" where
  "issuesFor uid (Login usr now1 now2) = (user_id usr = uid)"
| "issuesFor uid (Signup userData newId now1 now2) = (newId = uid)"
| "issuesFor uid (Logout usr) = False"
| "issuesFor uid (ValidateUser mail pw) = False"
| "issuesFor uid (VerifyUserRefreshToken token i) = False"

section \<open>Startup\<close>

text \<open>What \<open>bootstrap\<close> sets on the application.\<close>

record app =
  swaggerPath :: "string option"
  middleware :: "string list"
  globalPipes :: "string list"
  globalFilters :: "string list"
  port :: "nat option"

text \<open>The four configuration variables.\<close>

definition requiredConfig :: "string list" where
  "requiredConfig =
     [''JWT_ACCESS_TOKEN_SECRET'', ''JWT_ACCESS_TOKEN_EXPIRATION_MS'',
      ''JWT_REFRESH_TOKEN_SECRET'', ''JWT_REFRESH_TOKEN_EXPIRATION_MS'']"

text \<open>
  Modelled from the spec: the creation of the application from \<open>AppModule\<close>,
  \<open>NestFactory.create(AppModule)\<close>; \<open>app.module.ts\<close>, where the configuration is loaded, is
  not under src/. The spec makes the four values required configuration, validated once
  at startup: a missing value is a \<open>Misconfiguration\<close>, fatal, and prevents the service
  from starting. With all four present the application is created.
\<close>

definition createApp :: "env \<Rightarrow> exn + app" where
  "createApp penv =
     (case find (\<lambda>k. penv k = None) requiredConfig of
        Some k \<Rightarrow> Inl (Misconfiguration k)
      | None \<Rightarrow> Inr \<lparr>swaggerPath = None, middleware = [], globalPipes = [],
                     globalFilters = [], port = None\<rparr>)"

text \<open>
  \<open>bootstrap\<close>: the application is created, then set up, then \<open>listen\<close> (\<open>app.listen\<close>, which
  may raise) is called on port 3000. An exception of the creation ends \<open>bootstrap\<close>.
\<close>

definition bootstrap :: "(nat \<Rightarrow> app \<Rightarrow> exn + app) \<Rightarrow> env \<Rightarrow> exn + app" where
  "bootstrap listen penv =
     (case createApp penv of
        Inl e \<Rightarrow> Inl e
      | Inr a \<Rightarrow>
          listen 3000
            (a\<lparr>swaggerPath := Some ''api'',
               middleware := middleware a @ [''cookieParser''],
               globalPipes := globalPipes a @ [''ValidationPipe''],
               globalFilters := globalFilters a @ [''AllExceptionFilter'']\<rparr>))"

section \<open>Sample collaborators\<close>

text \<open>
  Concrete collaborators for evaluating the operations: a signer that puts the user id,
  the secret and the lifetime into the token and raises on nothing; a signer that raises
  when it is given no secret or the lifetime of an absent variable; a hasher that marks
  its input, and the comparator that goes with it; environments with the four values,
  with a refresh lifetime beyond the range of dates, with the secrets alone, and with
  nothing.
\<close>

definition sampleSign :: signer where
  "sampleSign p opts = Inr (userId p @ ''.'' @ toString_js (secret opts) @ ''.'' @ expiresIn opts)"

definition strictSign :: signer where
  "strictSign p opts =
     (case secret opts of
        None \<Rightarrow> Inl (JwtError ''secretOrPrivateKey must have a value'')
      | Some s \<Rightarrow>
          if expiresIn opts = ''undefinedms''
          then Inl (JwtError ''expiresIn should be a number of seconds or a timespan'')
          else Inr (userId p @ ''.'' @ s @ ''.'' @ expiresIn opts))"

definition sampleEncrypt :: "string \<Rightarrow> string" where
  "sampleEncrypt s = CHR ''#'' # s"

definition sampleCompare :: "string \<Rightarrow> string \<Rightarrow> bool" where
  "sampleCompare v h = (h = CHR ''#'' # v)"

definition sampleEnv :: env where
  "sampleEnv =
     [''JWT_ACCESS_TOKEN_SECRET'' \<mapsto> ''sa'', ''JWT_ACCESS_TOKEN_EXPIRATION_MS'' \<mapsto> ''1000'',
      ''JWT_REFRESH_TOKEN_SECRET'' \<mapsto> ''sr'', ''JWT_REFRESH_TOKEN_EXPIRATION_MS'' \<mapsto> ''5000'']"

definition longEnv :: env where
  "longEnv =
     [''JWT_ACCESS_TOKEN_SECRET'' \<mapsto> ''sa'', ''JWT_ACCESS_TOKEN_EXPIRATION_MS'' \<mapsto> ''1000'',
      ''JWT_REFRESH_TOKEN_SECRET'' \<mapsto> ''sr'',
      ''JWT_REFRESH_TOKEN_EXPIRATION_MS'' \<mapsto> ''9000000000000000'']"

definition alice :: user where
  "alice = \<lparr>user_id = ''u1'', username = ''alice'', email = ''a@x'',
            password = ''#pw'', refreshToken = None\<rparr>"

definition bob :: user where
  "bob = \<lparr>user_id = ''u2'', username = ''bob'', email = ''b@x'',
          password = ''#qw'', refreshToken = Some ''#tok''\<rparr>"

definition carolDto :: createUserDto where
  "carolDto = \<lparr>dto_username = ''carol'', dto_email = ''c@x'', dto_password = ''pw3''\<rparr>"

definition carol :: user where
  "carol = \<lparr>user_id = ''u3'', username = ''carol'', email = ''c@x'',
            password = ''#pw3'', refreshToken = None\<rparr>"

definition aliceDto :: createUserDto where
  "aliceDto = \<lparr>dto_username = ''alice'', dto_email = ''d@x'', dto_password = ''pw4''\<rparr>"

definition secretsEnv :: env where
  "secretsEnv = [''JWT_ACCESS_TOKEN_SECRET'' \<mapsto> ''sa'', ''JWT_REFRESH_TOKEN_SECRET'' \<mapsto> ''sr'']"

definition emptyEnv :: env where
  "emptyEnv k = None"

definition sampleListen :: "nat \<Rightarrow> app \<Rightarrow> exn + app" where
  "sampleListen p a = Inr (a\<lparr>port := Some p\<rparr>)"

section \<open>Properties of verification\<close>

subsection \<open>What the verification operations compute\<close>

lemma verifyUserRefreshToken_try_eq:
  "verifyUserRefreshToken_try cmp token uid st =
     (case find (\<lambda>x. user_id x = uid) st of
        None \<Rightarrow> (Inl (NotFoundException ''User not found''), st)
      | Some u \<Rightarrow>
          (case refreshToken u of
             None \<Rightarrow> (Inl (HashError ''data and hash arguments required''), st)
           | Some h \<Rightarrow> if cmp token h then (Inr u, st)
                       else (Inl (UnauthorizedException ''Unauthorized''), st)))"
  unfolding verifyUserRefreshToken_try_def findOneById_def compareValueWithHash_def
  by (simp split: option.splits)

lemma verifyUserRefreshToken_eq:
  "verifyUserRefreshToken cmp token uid st =
     (case find (\<lambda>x. user_id x = uid) st of
        None \<Rightarrow> (Inl (UnauthorizedException ''Refresh token is not valid.''), st)
      | Some u \<Rightarrow>
          (case refreshToken u of
             None \<Rightarrow> (Inl (UnauthorizedException ''Refresh token is not valid.''), st)
           | Some h \<Rightarrow> if cmp token h then (Inr u, st)
                       else (Inl (UnauthorizedException ''Refresh token is not valid.''), st)))"
  unfolding verifyUserRefreshToken_def verifyUserRefreshToken_try_eq
  by (simp split: option.splits)

lemma validateUser_try_eq:
  "validateUser_try cmp mail pw st =
     (case find (\<lambda>x. email x = mail) st of
        None \<Rightarrow> (Inl (NotFoundException ''User not found''), st)
      | Some u \<Rightarrow> if cmp pw (password u) then (Inr u, st)
                  else (Inl (UnauthorizedException ''Unauthorized''), st))"
  unfolding validateUser_try_def findOne_def compareValueWithHash_def
  by (cases "find (\<lambda>x. email x = mail) st") simp_all

lemma validateUser_eq:
  "validateUser cmp mail pw st =
     (case find (\<lambda>x. email x = mail) st of
        None \<Rightarrow> (Inl (UnauthorizedException ''Credentials are not valid.''), st)
      | Some u \<Rightarrow> if cmp pw (password u) then (Inr u, st)
                  else (Inl (UnauthorizedException ''Credentials are not valid.''), st))"
  unfolding validateUser_def validateUser_try_eq
  by (cases "find (\<lambda>x. email x = mail) st") simp_all

lemma find_Some_holds: "find P xs = Some x \<Longrightarrow> P x \<and> x \<in> set xs"
  by (induction xs) (auto split: if_splits)

lemma verify_success_iff:
  "fst (verifyUserRefreshToken cmp token uid st) = Inr u \<longleftrightarrow>
     find (\<lambda>x. user_id x = uid) st = Some u \<and> (\<exists>h. refreshToken u = Some h \<and> cmp token h)"
  by (auto simp: verifyUserRefreshToken_eq split: option.splits)

lemma verify_success_row:
  "fst (verifyUserRefreshToken cmp token uid st) = Inr u \<longrightarrow> user_id u = uid \<and> u \<in> set st"
proof
  assume "fst (verifyUserRefreshToken cmp token uid st) = Inr u"
  then have "find (\<lambda>x. user_id x = uid) st = Some u"
    by (simp add: verify_success_iff)
  then show "user_id u = uid \<and> u \<in> set st"
    by (rule find_Some_holds)
qed

lemma verify_failure_generic:
  "(\<forall>v. fst (verifyUserRefreshToken cmp token uid st) \<noteq> Inr v) \<longrightarrow>
     fst (verifyUserRefreshToken cmp token uid st) =
       Inl (UnauthorizedException ''Refresh token is not valid.'')"
  by (auto simp: verifyUserRefreshToken_eq split: option.splits)

lemma verify_other_user:
  "(\<forall>b h. find (\<lambda>x. user_id x = uidB) st = Some b \<and> refreshToken b = Some h \<longrightarrow> \<not> cmp token h) \<longrightarrow>
     fst (verifyUserRefreshToken cmp token uidB st) =
       Inl (UnauthorizedException ''Refresh token is not valid.'')"
  by (auto simp: verifyUserRefreshToken_eq split: option.splits)

lemma validate_success_iff:
  "fst (validateUser cmp mail pw st) = Inr u \<longleftrightarrow>
     find (\<lambda>x. email x = mail) st = Some u \<and> cmp pw (password u)"
  by (auto simp: validateUser_eq split: option.splits)

lemma validate_success_row:
  "fst (validateUser cmp mail pw st) = Inr u \<longrightarrow> email u = mail \<and> u \<in> set st"
proof
  assume "fst (validateUser cmp mail pw st) = Inr u"
  then have "find (\<lambda>x. email x = mail) st = Some u"
    by (simp add: validate_success_iff)
  then show "email u = mail \<and> u \<in> set st"
    by (rule find_Some_holds)
qed

lemma validate_failure_generic:
  "(\<forall>v. fst (validateUser cmp mail pw st) \<noteq> Inr v) \<longrightarrow>
     fst (validateUser cmp mail pw st) = Inl (UnauthorizedException ''Credentials are not valid.'')"
  by (auto simp: validateUser_eq split: option.splits)

lemma validate_catch_all:
  "\<forall>e s. validateUser_try cmp mail pw st = (Inl e, s) \<longrightarrow>
     fst (validateUser cmp mail pw st) = Inl (UnauthorizedException ''Credentials are not valid.'')"
  by (simp add: validateUser_def)

subsection \<open>Verification: the claims\<close>

text \<open>
  C1. \<open>verifyUserRefreshToken\<close> returns a user record exactly when the table has a row with
  that very id, the row holds a refresh-token hash, and the presented token matches that
  hash under the comparator; the record returned is that row. In every other case (no
  row, no hash, no match) the result is the one \<open>UnauthorizedException\<close> with the message
  \<open>Refresh token is not valid.\<close>. Only the row of the id asked for counts: a token fails
  for an id \<open>uidB\<close> whose row holds no hash it matches, whatever it is worth for other ids.
\<close>

theorem verifyUserRefreshToken_iff:
  "(fst (verifyUserRefreshToken cmp token uid st) = Inr u \<longleftrightarrow>
      find (\<lambda>x. user_id x = uid) st = Some u \<and> (\<exists>h. refreshToken u = Some h \<and> cmp token h))
   \<and> (fst (verifyUserRefreshToken cmp token uid st) = Inr u \<longrightarrow> user_id u = uid \<and> u \<in> set st)
   \<and> ((\<forall>v. fst (verifyUserRefreshToken cmp token uid st) \<noteq> Inr v) \<longrightarrow>
        fst (verifyUserRefreshToken cmp token uid st) =
          Inl (UnauthorizedException ''Refresh token is not valid.''))
   \<and> ((\<forall>b h. find (\<lambda>x. user_id x = uidB) st = Some b \<and> refreshToken b = Some h \<longrightarrow> \<not> cmp token h) \<longrightarrow>
        fst (verifyUserRefreshToken cmp token uidB st) =
          Inl (UnauthorizedException ''Refresh token is not valid.''))"
  by (rule conjI [OF verify_success_iff conjI [OF verify_success_row
        conjI [OF verify_failure_generic verify_other_user]]])

theorem verifyUserRefreshToken_iff_witness:
  "fst (verifyUserRefreshToken sampleCompare ''tok'' ''u2'' [alice, bob]) = Inr bob
   \<and> find (\<lambda>x. user_id x = ''u2'') [alice, bob] = Some bob
   \<and> refreshToken bob = Some ''#tok'' \<and> sampleCompare ''tok'' ''#tok''
   \<and> fst (verifyUserRefreshToken sampleCompare ''tok'' ''u1'' [alice, bob]) =
        Inl (UnauthorizedException ''Refresh token is not valid.'')"
proof -
  have f: "find (\<lambda>x. user_id x = ''u2'') [alice, bob] = Some bob"
    by (simp add: alice_def bob_def)
  have h: "refreshToken bob = Some ''#tok''"
    by (simp add: bob_def)
  have c: "sampleCompare ''tok'' ''#tok''"
    by (simp add: sampleCompare_def)
  have g: "find (\<lambda>x. user_id x = ''u1'') [alice, bob] = Some alice"
    by (simp add: alice_def)
  have n: "refreshToken alice = None"
    by (simp add: alice_def)
  note t = verifyUserRefreshToken_iff
             [of sampleCompare "''tok''" "''u2''" "[alice, bob]" bob "''u1''"]
  have ok: "fst (verifyUserRefreshToken sampleCompare ''tok'' ''u2'' [alice, bob]) = Inr bob"
    using t [THEN conjunct1] f h c by simp
  have ko: "fst (verifyUserRefreshToken sampleCompare ''tok'' ''u1'' [alice, bob]) =
        Inl (UnauthorizedException ''Refresh token is not valid.'')"
    using t [THEN conjunct2, THEN conjunct2, THEN conjunct2] g n by simp
  show ?thesis
    by (rule conjI [OF ok conjI [OF f conjI [OF h conjI [OF c ko]]]])
qed

text \<open>
  C2. \<open>validateUser\<close> returns a user record exactly when the lookup by email finds a row
  and the password matches the stored hash of that row; the record returned is that row.
  Every failure, whatever raised it inside the \<open>try\<close> block (unknown email, wrong
  password, an error of the lookup), is the same \<open>UnauthorizedException\<close> with the fixed
  message \<open>Credentials are not valid.\<close>.
\<close>

theorem validateUser_generic:
  "(fst (validateUser cmp mail pw st) = Inr u \<longleftrightarrow>
      find (\<lambda>x. email x = mail) st = Some u \<and> cmp pw (password u))
   \<and> (fst (validateUser cmp mail pw st) = Inr u \<longrightarrow> email u = mail \<and> u \<in> set st)
   \<and> ((\<forall>v. fst (validateUser cmp mail pw st) \<noteq> Inr v) \<longrightarrow>
        fst (validateUser cmp mail pw st) = Inl (UnauthorizedException ''Credentials are not valid.''))
   \<and> (\<forall>e s. validateUser_try cmp mail pw st = (Inl e, s) \<longrightarrow>
        fst (validateUser cmp mail pw st) = Inl (UnauthorizedException ''Credentials are not valid.''))"
  by (rule conjI [OF validate_success_iff conjI [OF validate_success_row
        conjI [OF validate_failure_generic validate_catch_all]]])

theorem validateUser_generic_witness:
  "fst (validateUser sampleCompare ''a@x'' ''pw'' [alice, bob]) = Inr alice
   \<and> find (\<lambda>x. email x = ''a@x'') [alice, bob] = Some alice
   \<and> sampleCompare ''pw'' (password alice)
   \<and> fst (validateUser sampleCompare ''a@x'' ''bad'' [alice, bob]) =
       Inl (UnauthorizedException ''Credentials are not valid.'')
   \<and> fst (validateUser sampleCompare ''z@x'' ''pw'' [alice, bob]) =
       Inl (UnauthorizedException ''Credentials are not valid.'')"
proof -
  have f: "find (\<lambda>x. email x = ''a@x'') [alice, bob] = Some alice"
    by (simp add: alice_def)
  have c: "sampleCompare ''pw'' (password alice)"
    by (simp add: alice_def sampleCompare_def)
  have ok: "fst (validateUser sampleCompare ''a@x'' ''pw'' [alice, bob]) = Inr alice"
    using validateUser_generic [of sampleCompare "''a@x''" "''pw''" "[alice, bob]" alice,
            THEN conjunct1] f c
    by simp
  have t1: "validateUser_try sampleCompare ''a@x'' ''bad'' [alice, bob] =
              (Inl (UnauthorizedException ''Unauthorized''), [alice, bob])"
    unfolding validateUser_try_eq by (simp add: alice_def sampleCompare_def)
  have t2: "validateUser_try sampleCompare ''z@x'' ''pw'' [alice, bob] =
              (Inl (NotFoundException ''User not found''), [alice, bob])"
    unfolding validateUser_try_eq by (simp add: alice_def bob_def)
  have k1: "fst (validateUser sampleCompare ''a@x'' ''bad'' [alice, bob]) =
       Inl (UnauthorizedException ''Credentials are not valid.'')"
    using validateUser_generic [of sampleCompare "''a@x''" "''bad''" "[alice, bob]" alice,
            THEN conjunct2, THEN conjunct2, THEN conjunct2] t1
    by simp
  have k2: "fst (validateUser sampleCompare ''z@x'' ''pw'' [alice, bob]) =
       Inl (UnauthorizedException ''Credentials are not valid.'')"
    using validateUser_generic [of sampleCompare "''z@x''" "''pw''" "[alice, bob]" alice,
            THEN conjunct2, THEN conjunct2, THEN conjunct2] t2
    by simp
  show ?thesis
    by (rule conjI [OF ok conjI [OF f conjI [OF c conjI [OF k1 k2]]]])
qed

text \<open>
  C9. \<open>validateUser\<close> and \<open>verifyUserRefreshToken\<close> leave the user table as it was, on
  success and on failure: all rows, with password hash and refresh-token hash, are the
  same after the call.
\<close>

theorem verification_leaves_store:
  "snd (validateUser cmp mail pw st) = st \<and> snd (verifyUserRefreshToken cmp token uid st) = st"
  by (simp add: validateUser_eq verifyUserRefreshToken_eq split: option.splits)

section \<open>Properties of token generation\<close>

subsection \<open>What generateTokens computes\<close>

lemma generateTokens_signed:
  assumes "sign \<lparr>userId = uid\<rparr>
             \<lparr>secret = penv ''JWT_ACCESS_TOKEN_SECRET'',
              expiresIn = toString_js (penv ''JWT_ACCESS_TOKEN_EXPIRATION_MS'') @ ''ms''\<rparr> = Inr atok"
      and "sign \<lparr>userId = uid\<rparr>
             \<lparr>secret = penv ''JWT_REFRESH_TOKEN_SECRET'',
              expiresIn = toString_js (penv ''JWT_REFRESH_TOKEN_EXPIRATION_MS'') @ ''ms''\<rparr> = Inr rtok"
  shows "generateTokens sign penv now1 now2 uid =
           Inr \<lparr>tp_expireAccessToken =
                  timeClip (num_add (Some now1)
                    (parseInt (toString_js (penv ''JWT_ACCESS_TOKEN_EXPIRATION_MS'')))),
                tp_expireRefreshToken =
                  timeClip (num_add (Some now2)
                    (parseInt (toString_js (penv ''JWT_REFRESH_TOKEN_EXPIRATION_MS'')))),
                tp_accessToken = atok, tp_refreshToken = rtok\<rparr>"
  unfolding generateTokens_def Let_def using assms by simp

lemma generateTokens_InrD:
  assumes "generateTokens sign penv now1 now2 uid = Inr t"
  shows "sign \<lparr>userId = uid\<rparr>
             \<lparr>secret = penv ''JWT_ACCESS_TOKEN_SECRET'',
              expiresIn = toString_js (penv ''JWT_ACCESS_TOKEN_EXPIRATION_MS'') @ ''ms''\<rparr> = Inr (tp_accessToken t)
       \<and> sign \<lparr>userId = uid\<rparr>
             \<lparr>secret = penv ''JWT_REFRESH_TOKEN_SECRET'',
              expiresIn = toString_js (penv ''JWT_REFRESH_TOKEN_EXPIRATION_MS'') @ ''ms''\<rparr> = Inr (tp_refreshToken t)
       \<and> tp_expireAccessToken t = timeClip (num_add (Some now1)
                    (parseInt (toString_js (penv ''JWT_ACCESS_TOKEN_EXPIRATION_MS''))))
       \<and> tp_expireRefreshToken t = timeClip (num_add (Some now2)
                    (parseInt (toString_js (penv ''JWT_REFRESH_TOKEN_EXPIRATION_MS''))))"
  using assms unfolding generateTokens_def Let_def
  by (simp split: sum.splits) (cases t, simp)

subsection \<open>Token generation: the claim\<close>

text \<open>
  C4. With both lifetimes configured as integers of milliseconds and a signer that signs,
  \<open>generateTokens\<close> returns: the access token is the signature of the payload holding the
  user id alone under the access-token secret and the access lifetime, the refresh token
  the signature of the same payload under the refresh-token secret and the refresh
  lifetime; each expiry instant is the clock reading plus the lifetime, as a \<open>Date\<close>: the
  sum itself whenever JavaScript can represent it as a date. With the access lifetime
  less than the refresh lifetime, the second reading of the clock not before the first,
  and both sums representable, the access expiry is strictly earlier than the refresh
  expiry.
\<close>

theorem generateTokens_pair:
  assumes la: "penv ''JWT_ACCESS_TOKEN_EXPIRATION_MS'' = Some la"
      and lr: "penv ''JWT_REFRESH_TOKEN_EXPIRATION_MS'' = Some lr"
      and pa: "parseInt la = Some a"
      and pr: "parseInt lr = Some r"
      and sa: "sign \<lparr>userId = uid\<rparr>
                 \<lparr>secret = penv ''JWT_ACCESS_TOKEN_SECRET'', expiresIn = la @ ''ms''\<rparr> = Inr atok"
      and sr: "sign \<lparr>userId = uid\<rparr>
                 \<lparr>secret = penv ''JWT_REFRESH_TOKEN_SECRET'', expiresIn = lr @ ''ms''\<rparr> = Inr rtok"
  shows "\<exists>t. generateTokens sign penv now1 now2 uid = Inr t
           \<and> tp_accessToken t = atok \<and> tp_refreshToken t = rtok
           \<and> tp_expireAccessToken t = timeClip (Some (now1 + a))
           \<and> tp_expireRefreshToken t = timeClip (Some (now2 + r))
           \<and> (\<bar>now1 + a\<bar> \<le> 8640000000000000 \<longrightarrow> tp_expireAccessToken t = Some (now1 + a))
           \<and> (\<bar>now2 + r\<bar> \<le> 8640000000000000 \<longrightarrow> tp_expireRefreshToken t = Some (now2 + r))
           \<and> (a < r \<and> now1 \<le> now2
                \<and> \<bar>now1 + a\<bar> \<le> 8640000000000000 \<and> \<bar>now2 + r\<bar> \<le> 8640000000000000 \<longrightarrow>
                (\<exists>ea er. tp_expireAccessToken t = Some ea \<and> tp_expireRefreshToken t = Some er
                          \<and> ea < er))"
proof -
  let ?t = "\<lparr>tp_expireAccessToken = timeClip (Some (now1 + a)),
             tp_expireRefreshToken = timeClip (Some (now2 + r)),
             tp_accessToken = atok, tp_refreshToken = rtok\<rparr>"
  have sa': "sign \<lparr>userId = uid\<rparr>
             \<lparr>secret = penv ''JWT_ACCESS_TOKEN_SECRET'',
              expiresIn = toString_js (penv ''JWT_ACCESS_TOKEN_EXPIRATION_MS'') @ ''ms''\<rparr> = Inr atok"
    using sa by (simp add: la toString_js_def)
  have sr': "sign \<lparr>userId = uid\<rparr>
             \<lparr>secret = penv ''JWT_REFRESH_TOKEN_SECRET'',
              expiresIn = toString_js (penv ''JWT_REFRESH_TOKEN_EXPIRATION_MS'') @ ''ms''\<rparr> = Inr rtok"
    using sr by (simp add: lr toString_js_def)
  have ea: "num_add (Some now1)
              (parseInt (toString_js (penv ''JWT_ACCESS_TOKEN_EXPIRATION_MS''))) = Some (now1 + a)"
    by (simp add: la pa toString_js_def num_add_def)
  have er: "num_add (Some now2)
              (parseInt (toString_js (penv ''JWT_REFRESH_TOKEN_EXPIRATION_MS''))) = Some (now2 + r)"
    by (simp add: lr pr toString_js_def num_add_def)
  have g: "generateTokens sign penv now1 now2 uid = Inr ?t"
    unfolding generateTokens_signed [where sign = sign and penv = penv and uid = uid, OF sa' sr']
      ea er
    by (rule refl)
  have ca: "\<bar>now1 + a\<bar> \<le> 8640000000000000 \<longrightarrow> tp_expireAccessToken ?t = Some (now1 + a)"
    by (simp add: timeClip_def)
  have cr: "\<bar>now2 + r\<bar> \<le> 8640000000000000 \<longrightarrow> tp_expireRefreshToken ?t = Some (now2 + r)"
    by (simp add: timeClip_def)
  have ord: "a < r \<and> now1 \<le> now2
                \<and> \<bar>now1 + a\<bar> \<le> 8640000000000000 \<and> \<bar>now2 + r\<bar> \<le> 8640000000000000 \<longrightarrow>
       (\<exists>ea er. tp_expireAccessToken ?t = Some ea \<and> tp_expireRefreshToken ?t = Some er \<and> ea < er)"
    by (simp add: timeClip_def)
  have "generateTokens sign penv now1 now2 uid = Inr ?t
           \<and> tp_accessToken ?t = atok \<and> tp_refreshToken ?t = rtok
           \<and> tp_expireAccessToken ?t = timeClip (Some (now1 + a))
           \<and> tp_expireRefreshToken ?t = timeClip (Some (now2 + r))
           \<and> (\<bar>now1 + a\<bar> \<le> 8640000000000000 \<longrightarrow> tp_expireAccessToken ?t = Some (now1 + a))
           \<and> (\<bar>now2 + r\<bar> \<le> 8640000000000000 \<longrightarrow> tp_expireRefreshToken ?t = Some (now2 + r))
           \<and> (a < r \<and> now1 \<le> now2
                \<and> \<bar>now1 + a\<bar> \<le> 8640000000000000 \<and> \<bar>now2 + r\<bar> \<le> 8640000000000000 \<longrightarrow>
                (\<exists>ea er. tp_expireAccessToken ?t = Some ea \<and> tp_expireRefreshToken ?t = Some er
                          \<and> ea < er))"
    using g ca cr ord by simp
  then show ?thesis by (rule exI)
qed

theorem generateTokens_pair_witness:
  "\<exists>t. generateTokens sampleSign sampleEnv 10 11 ''u1'' = Inr t
       \<and> tp_accessToken t = ''u1.sa.1000ms'' \<and> tp_refreshToken t = ''u1.sr.5000ms''
       \<and> tp_expireAccessToken t = Some 1010 \<and> tp_expireRefreshToken t = Some 5011
       \<and> (\<exists>ea er. tp_expireAccessToken t = Some ea \<and> tp_expireRefreshToken t = Some er \<and> ea < er)"
proof -
  have la: "sampleEnv ''JWT_ACCESS_TOKEN_EXPIRATION_MS'' = Some ''1000''"
    by (simp add: sampleEnv_def)
  have lr: "sampleEnv ''JWT_REFRESH_TOKEN_EXPIRATION_MS'' = Some ''5000''"
    by (simp add: sampleEnv_def)
  have pa: "parseInt ''1000'' = Some 1000"
    by (simp add: parseInt_def strWhiteSpaceChar_def digitValue_def Let_def)
  have pr: "parseInt ''5000'' = Some 5000"
    by (simp add: parseInt_def strWhiteSpaceChar_def digitValue_def Let_def)
  have sa: "sampleSign \<lparr>userId = ''u1''\<rparr>
              \<lparr>secret = sampleEnv ''JWT_ACCESS_TOKEN_SECRET'', expiresIn = ''1000'' @ ''ms''\<rparr>
            = Inr ''u1.sa.1000ms''"
    by (simp add: sampleSign_def sampleEnv_def toString_js_def)
  have sr: "sampleSign \<lparr>userId = ''u1''\<rparr>
              \<lparr>secret = sampleEnv ''JWT_REFRESH_TOKEN_SECRET'', expiresIn = ''5000'' @ ''ms''\<rparr>
            = Inr ''u1.sr.5000ms''"
    by (simp add: sampleSign_def sampleEnv_def toString_js_def)
  have ord: "(1000::int) < 5000 \<and> (10::int) \<le> 11
             \<and> \<bar>10 + 1000 :: int\<bar> \<le> 8640000000000000
             \<and> \<bar>11 + 5000 :: int\<bar> \<le> 8640000000000000"
    by simp
  from generateTokens_pair [where penv = sampleEnv and sign = sampleSign and uid = "''u1''"
          and ?now1.0 = 10 and ?now2.0 = 11 and a = 1000 and r = 5000,
          OF la lr pa pr sa sr]
  obtain t where g: "generateTokens sampleSign sampleEnv 10 11 ''u1'' = Inr t"
    and ta: "tp_accessToken t = ''u1.sa.1000ms''"
    and tr: "tp_refreshToken t = ''u1.sr.5000ms''"
    and ea: "tp_expireAccessToken t = timeClip (Some (10 + 1000))"
    and er: "tp_expireRefreshToken t = timeClip (Some (11 + 5000))"
    and lt: "(1000::int) < 5000 \<and> (10::int) \<le> 11
             \<and> \<bar>10 + 1000 :: int\<bar> \<le> 8640000000000000
             \<and> \<bar>11 + 5000 :: int\<bar> \<le> 8640000000000000 \<longrightarrow>
             (\<exists>ea er. tp_expireAccessToken t = Some ea \<and> tp_expireRefreshToken t = Some er
                       \<and> ea < er)"
    by (elim exE conjE)
  have ea': "tp_expireAccessToken t = Some 1010"
    using ea by (simp add: timeClip_def)
  have er': "tp_expireRefreshToken t = Some 5011"
    using er by (simp add: timeClip_def)
  have lt': "\<exists>ea er. tp_expireAccessToken t = Some ea \<and> tp_expireRefreshToken t = Some er
                       \<and> ea < er"
    by (rule lt [THEN mp, OF ord])
  show ?thesis
    by (rule exI [of _ t])
       (rule conjI [OF g conjI [OF ta conjI [OF tr conjI [OF ea' conjI [OF er' lt']]]]])
qed

section \<open>Properties of login, signup and logout\<close>

subsection \<open>What the operations compute\<close>

lemma update_eq:
  "update uid h st =
     (case find (\<lambda>u. user_id u = uid) st of
        None \<Rightarrow> (Inl (NotFoundException ''User not found''), st)
      | Some u \<Rightarrow> (Inr (u\<lparr>refreshToken := h\<rparr>), withHash uid h st))"
  unfolding update_def withHash_def by (rule refl)

lemma cookie_valid:
  "cookie name val \<lparr>httpOnly = h, secure = s, expires = Some t\<rparr> res =
     Inr (res @ [Cookie name val \<lparr>httpOnly = h, secure = s, expires = Some t\<rparr>])"
  by (simp add: cookie_def)

lemma cookie_invalid:
  "cookie name val \<lparr>httpOnly = h, secure = s, expires = None\<rparr> res =
     Inl (TypeError ''option expires is invalid'')"
  by (simp add: cookie_def)

lemma setCookies_absent:
  assumes "find (\<lambda>u. user_id u = uid) st = None"
  shows "setCookies encrypt res uid atok rtok ea er st =
           (Inl (NotFoundException ''User not found''), st, res)"
  unfolding setCookies_def update_eq assms by simp

lemma setCookies_first_invalid:
  assumes "find (\<lambda>u. user_id u = uid) st = Some u"
  shows "setCookies encrypt res uid atok rtok None er st =
           (Inl (TypeError ''option expires is invalid''),
            withHash uid (Some (encrypt rtok)) st, res)"
  unfolding setCookies_def update_eq assms by (simp add: cookie_invalid)

lemma setCookies_second_invalid:
  assumes "find (\<lambda>u. user_id u = uid) st = Some u"
  shows "setCookies encrypt res uid atok rtok (Some a) None st =
           (Inl (TypeError ''option expires is invalid''),
            withHash uid (Some (encrypt rtok)) st,
            res @ [Cookie ACCESS_TOKEN_COOKIE atok
                     \<lparr>httpOnly = True, secure = True, expires = Some a\<rparr>])"
  unfolding setCookies_def update_eq assms by (simp add: cookie_invalid cookie_valid)

lemma setCookies_valid:
  assumes "find (\<lambda>u. user_id u = uid) st = Some u"
  shows "setCookies encrypt res uid atok rtok (Some a) (Some r) st =
           (Inr (), withHash uid (Some (encrypt rtok)) st,
            res @ [Cookie ACCESS_TOKEN_COOKIE atok
                     \<lparr>httpOnly = True, secure = True, expires = Some a\<rparr>,
                   Cookie REFRESH_TOKEN_COOKIE rtok
                     \<lparr>httpOnly = True, secure = True, expires = Some r\<rparr>])"
  unfolding setCookies_def update_eq assms by (simp add: cookie_valid)

lemma setCookies_InrD:
  assumes "setCookies encrypt res uid atok rtok ea er st = (Inr (), st', res')"
  shows "(\<exists>u. find (\<lambda>u. user_id u = uid) st = Some u)
         \<and> st' = withHash uid (Some (encrypt rtok)) st
         \<and> res' = res @ [Cookie ACCESS_TOKEN_COOKIE atok
                            \<lparr>httpOnly = True, secure = True, expires = ea\<rparr>,
                          Cookie REFRESH_TOKEN_COOKIE rtok
                            \<lparr>httpOnly = True, secure = True, expires = er\<rparr>]"
proof (cases "find (\<lambda>u. user_id u = uid) st")
  case None
  with assms show ?thesis by (simp add: setCookies_absent)
next
  case (Some u)
  show ?thesis
  proof (cases ea)
    case None
    with assms Some show ?thesis by (simp add: setCookies_first_invalid)
  next
    case a: (Some a)
    show ?thesis
    proof (cases er)
      case None
      with assms Some a show ?thesis by (simp add: setCookies_second_invalid)
    next
      case r: (Some r)
      with assms Some a show ?thesis by (simp add: setCookies_valid)
    qed
  qed
qed

lemma setCookies_changedD:
  assumes "setCookies encrypt res uid atok rtok ea er st = (r, st', res')" and "res' \<noteq> res"
  shows "(\<exists>u. find (\<lambda>u. user_id u = uid) st = Some u)
         \<and> st' = withHash uid (Some (encrypt rtok)) st"
proof (cases "find (\<lambda>u. user_id u = uid) st")
  case None
  with assms show ?thesis by (simp add: setCookies_absent)
next
  case (Some u)
  show ?thesis
  proof (cases ea)
    case None
    with assms Some show ?thesis by (simp add: setCookies_first_invalid)
  next
    case a: (Some a)
    show ?thesis
    proof (cases er)
      case None
      with assms Some a show ?thesis by (simp add: setCookies_second_invalid)
    next
      case r: (Some r)
      with assms Some a show ?thesis by (simp add: setCookies_valid)
    qed
  qed
qed

lemma setCookies_storeD:
  assumes "setCookies encrypt res uid atok rtok ea er st = (r, st', res')"
  shows "st' = st \<or> ((\<exists>u. find (\<lambda>u. user_id u = uid) st = Some u)
                      \<and> st' = withHash uid (Some (encrypt rtok)) st)"
proof (cases "find (\<lambda>u. user_id u = uid) st")
  case None
  with assms show ?thesis by (simp add: setCookies_absent)
next
  case (Some u)
  show ?thesis
  proof (cases ea)
    case None
    with assms Some show ?thesis by (simp add: setCookies_first_invalid)
  next
    case a: (Some a)
    show ?thesis
    proof (cases er)
      case None
      with assms Some a show ?thesis by (simp add: setCookies_second_invalid)
    next
      case r: (Some r)
      with assms Some a show ?thesis by (simp add: setCookies_valid)
    qed
  qed
qed

lemma logout_eq:
  "logout usr res st =
     (case find (\<lambda>u. user_id u = user_id usr) st of
        None \<Rightarrow> (Inl (NotFoundException ''User not found''), st, res)
      | Some u \<Rightarrow>
          (Inr (), withHash (user_id usr) None st,
           res @ [ClearCookie REFRESH_TOKEN_COOKIE, ClearCookie ACCESS_TOKEN_COOKIE]))"
  unfolding logout_def update_eq clearCookies_def clearCookie_def
  by (cases "find (\<lambda>u. user_id u = user_id usr) st") simp_all

lemma findOne_False:
  "findOne mail False st = (Inr (find (\<lambda>u. email u = mail) st), st)"
  by (simp add: findOne_def split: option.splits)

lemma signup_eq:
  "signup sign encrypt penv newId now1 now2 d res st =
     (case find (\<lambda>u. email u = dto_email d) st of
        Some existingUser \<Rightarrow> (Inl (UnauthorizedException ''User already exists.''), st, res)
      | None \<Rightarrow>
          (case create encrypt newId d st of
             (Inl e, st2) \<Rightarrow> (Inl e, st2, res)
           | (Inr newUser, st2) \<Rightarrow> login sign encrypt penv now1 now2 newUser res st2))"
  unfolding signup_def findOne_False login_def
  by (cases "find (\<lambda>u. email u = dto_email d) st") simp_all

lemma find_withHash:
  "find (\<lambda>u. user_id u = uid) (withHash i h st) =
     map_option (\<lambda>x. if user_id x = i then x\<lparr>refreshToken := h\<rparr> else x)
       (find (\<lambda>u. user_id u = uid) st)"
  by (induction st) (auto simp: withHash_def)

lemma ids_withHash: "map user_id (withHash i h st) = map user_id st"
  by (induction st) (auto simp: withHash_def)

lemma set_withHash:
  assumes a: "x \<in> set (withHash i h st)" and b: "user_id x = i"
  shows "refreshToken x = h"
proof -
  from a have "x \<in> (\<lambda>y. if user_id y = i then y\<lparr>refreshToken := h\<rparr> else y) ` set st"
    unfolding withHash_def by (simp only: set_map)
  then obtain y where y: "x = (if user_id y = i then y\<lparr>refreshToken := h\<rparr> else y)"
    by (rule imageE)
  show ?thesis
  proof (cases "user_id y = i")
    case True
    with y show ?thesis by simp
  next
    case False
    with y b show ?thesis by simp
  qed
qed

lemma cookie_names:
  "ACCESS_TOKEN_COOKIE = ''Authentication'' \<and> REFRESH_TOKEN_COOKIE = ''Refresh''
   \<and> ACCESS_TOKEN_COOKIE \<noteq> REFRESH_TOKEN_COOKIE"
  by (simp add: ACCESS_TOKEN_COOKIE_def REFRESH_TOKEN_COOKIE_def)

lemma login_InrD:
  assumes "login sign encrypt penv now1 now2 usr res st = (Inr (), st', res')"
  shows "\<exists>t u. generateTokens sign penv now1 now2 (user_id usr) = Inr t
           \<and> find (\<lambda>x. user_id x = user_id usr) st = Some u
           \<and> st' = withHash (user_id usr) (Some (encrypt (tp_refreshToken t))) st
           \<and> res' = res @ [Cookie ACCESS_TOKEN_COOKIE (tp_accessToken t)
                        \<lparr>httpOnly = True, secure = True, expires = tp_expireAccessToken t\<rparr>,
                      Cookie REFRESH_TOKEN_COOKIE (tp_refreshToken t)
                        \<lparr>httpOnly = True, secure = True, expires = tp_expireRefreshToken t\<rparr>]"
proof (cases "generateTokens sign penv now1 now2 (user_id usr)")
  case (Inl e)
  with assms show ?thesis unfolding login_def by simp
next
  case (Inr t)
  with assms have "setCookies encrypt res (user_id usr) (tp_accessToken t) (tp_refreshToken t)
            (tp_expireAccessToken t) (tp_expireRefreshToken t) st = (Inr (), st', res')"
    unfolding login_def by simp
  from setCookies_InrD [OF this] Inr show ?thesis by simp
qed

lemma login_changedD:
  assumes "login sign encrypt penv now1 now2 usr res st = (r, st', res')" and "res' \<noteq> res"
  shows "\<exists>t u. generateTokens sign penv now1 now2 (user_id usr) = Inr t
           \<and> find (\<lambda>x. user_id x = user_id usr) st = Some u
           \<and> st' = withHash (user_id usr) (Some (encrypt (tp_refreshToken t))) st"
proof (cases "generateTokens sign penv now1 now2 (user_id usr)")
  case (Inl e)
  with assms show ?thesis unfolding login_def by simp
next
  case (Inr t)
  with assms have "setCookies encrypt res (user_id usr) (tp_accessToken t) (tp_refreshToken t)
            (tp_expireAccessToken t) (tp_expireRefreshToken t) st = (r, st', res')"
    unfolding login_def by simp
  from setCookies_changedD [OF this assms(2)] Inr show ?thesis by simp
qed

lemma create_eq:
  "create encrypt newId d st =
     (if list_ex (\<lambda>u. user_id u = newId \<or> username u = dto_username d \<or> email u = dto_email d) st
      then (Inl (StoreError ''Unique constraint failed''), st)
      else (Inr \<lparr>user_id = newId, username = dto_username d, email = dto_email d,
                 password = encrypt (dto_password d), refreshToken = None\<rparr>,
            st @ [\<lparr>user_id = newId, username = dto_username d, email = dto_email d,
                 password = encrypt (dto_password d), refreshToken = None\<rparr>]))"
  unfolding create_def Let_def by (rule refl)

lemma signup_changedD:
  assumes ok: "signup sign encrypt penv newId now1 now2 d res st = (r, st', res')"
      and ch: "res' \<noteq> res"
  shows "\<exists>nu sc t u. create encrypt newId d st = (Inr nu, sc)
           \<and> generateTokens sign penv now1 now2 (user_id nu) = Inr t
           \<and> find (\<lambda>x. user_id x = user_id nu) sc = Some u
           \<and> st' = withHash (user_id nu) (Some (encrypt (tp_refreshToken t))) sc"
proof (cases "find (\<lambda>u. email u = dto_email d) st")
  case (Some x)
  with ok ch show ?thesis unfolding signup_eq by simp
next
  case None
  show ?thesis
  proof (cases "create encrypt newId d st")
    case (Pair c sc)
    show ?thesis
    proof (cases c)
      case (Inl e2)
      with ok ch None Pair show ?thesis unfolding signup_eq by simp
    next
      case (Inr nu)
      with ok None Pair
      have "login sign encrypt penv now1 now2 nu res sc = (r, st', res')"
        unfolding signup_eq by simp
      from login_changedD [OF this ch] Pair Inr show ?thesis by simp
    qed
  qed
qed

subsection \<open>Login: the claim\<close>

text \<open>
  C3. A successful \<open>login\<close> has generated a token pair for the id of the user, has written
  the hash of the refresh token of that pair into the row of the user (every row of that
  id holds the hasher's output, which is not the token itself whenever the hasher changes
  its input), and has added exactly two calls to the response: the cookie
  \<open>Authentication\<close> with the access token and the cookie \<open>Refresh\<close> with the refresh token,
  two different names, both \<open>httpOnly\<close> and \<open>secure\<close>, each with the expiry instant of its
  token.
\<close>

theorem login_success:
  assumes ok: "login sign encrypt penv now1 now2 usr res st = (Inr (), st', res')"
  shows "\<exists>t. generateTokens sign penv now1 now2 (user_id usr) = Inr t
           \<and> st' = withHash (user_id usr) (Some (encrypt (tp_refreshToken t))) st
           \<and> (\<exists>row. find (\<lambda>x. user_id x = user_id usr) st' = Some row
                     \<and> refreshToken row = Some (encrypt (tp_refreshToken t)))
           \<and> (\<forall>x \<in> set st'. user_id x = user_id usr \<longrightarrow>
                 refreshToken x = Some (encrypt (tp_refreshToken t)))
           \<and> (encrypt (tp_refreshToken t) \<noteq> tp_refreshToken t \<longrightarrow>
                 (\<forall>x \<in> set st'. user_id x = user_id usr \<longrightarrow>
                    refreshToken x \<noteq> Some (tp_refreshToken t)))
           \<and> res' = res @ [Cookie ''Authentication'' (tp_accessToken t)
                        \<lparr>httpOnly = True, secure = True, expires = tp_expireAccessToken t\<rparr>,
                      Cookie ''Refresh'' (tp_refreshToken t)
                        \<lparr>httpOnly = True, secure = True, expires = tp_expireRefreshToken t\<rparr>]
           \<and> ''Authentication'' = ACCESS_TOKEN_COOKIE \<and> ''Refresh'' = REFRESH_TOKEN_COOKIE
           \<and> ACCESS_TOKEN_COOKIE \<noteq> REFRESH_TOKEN_COOKIE"
proof -
  from login_InrD [OF ok] obtain t u where
      g: "generateTokens sign penv now1 now2 (user_id usr) = Inr t"
    and f: "find (\<lambda>x. user_id x = user_id usr) st = Some u"
    and s: "st' = withHash (user_id usr) (Some (encrypt (tp_refreshToken t))) st"
    and r: "res' = res @ [Cookie ACCESS_TOKEN_COOKIE (tp_accessToken t)
                        \<lparr>httpOnly = True, secure = True, expires = tp_expireAccessToken t\<rparr>,
                      Cookie REFRESH_TOKEN_COOKIE (tp_refreshToken t)
                        \<lparr>httpOnly = True, secure = True, expires = tp_expireRefreshToken t\<rparr>]"
    by blast
  let ?h = "Some (encrypt (tp_refreshToken t))"
  have uid: "user_id u = user_id usr"
    using find_Some_holds [OF f] by simp
  have row: "\<exists>row. find (\<lambda>x. user_id x = user_id usr) st' = Some row \<and> refreshToken row = ?h"
    unfolding s find_withHash f using uid by simp
  have all: "\<forall>x \<in> set st'. user_id x = user_id usr \<longrightarrow> refreshToken x = ?h"
    unfolding s using set_withHash by blast
  have plain: "encrypt (tp_refreshToken t) \<noteq> tp_refreshToken t \<longrightarrow>
                 (\<forall>x \<in> set st'. user_id x = user_id usr \<longrightarrow>
                    refreshToken x \<noteq> Some (tp_refreshToken t))"
    using all by simp
  have r': "res' = res @ [Cookie ''Authentication'' (tp_accessToken t)
                        \<lparr>httpOnly = True, secure = True, expires = tp_expireAccessToken t\<rparr>,
                      Cookie ''Refresh'' (tp_refreshToken t)
                        \<lparr>httpOnly = True, secure = True, expires = tp_expireRefreshToken t\<rparr>]"
    using r unfolding ACCESS_TOKEN_COOKIE_def REFRESH_TOKEN_COOKIE_def .
  have n1: "''Authentication'' = ACCESS_TOKEN_COOKIE" and n2: "''Refresh'' = REFRESH_TOKEN_COOKIE"
    and n3: "ACCESS_TOKEN_COOKIE \<noteq> REFRESH_TOKEN_COOKIE"
    using cookie_names by simp_all
  show ?thesis
    by (rule exI [of _ t])
       (rule conjI [OF g conjI [OF s conjI [OF row conjI [OF all conjI [OF plain
          conjI [OF r' conjI [OF n1 conjI [OF n2 n3]]]]]]]])
qed

lemma sample_tokens:
  "generateTokens sampleSign sampleEnv 10 11 ''u1'' =
     Inr \<lparr>tp_expireAccessToken = Some 1010, tp_expireRefreshToken = Some 5011,
          tp_accessToken = ''u1.sa.1000ms'', tp_refreshToken = ''u1.sr.5000ms''\<rparr>"
proof -
  have sa: "sampleSign \<lparr>userId = ''u1''\<rparr>
             \<lparr>secret = sampleEnv ''JWT_ACCESS_TOKEN_SECRET'',
              expiresIn = toString_js (sampleEnv ''JWT_ACCESS_TOKEN_EXPIRATION_MS'') @ ''ms''\<rparr>
            = Inr ''u1.sa.1000ms''"
    by (simp add: sampleSign_def sampleEnv_def toString_js_def)
  have sr: "sampleSign \<lparr>userId = ''u1''\<rparr>
             \<lparr>secret = sampleEnv ''JWT_REFRESH_TOKEN_SECRET'',
              expiresIn = toString_js (sampleEnv ''JWT_REFRESH_TOKEN_EXPIRATION_MS'') @ ''ms''\<rparr>
            = Inr ''u1.sr.5000ms''"
    by (simp add: sampleSign_def sampleEnv_def toString_js_def)
  have ea: "timeClip (num_add (Some 10)
              (parseInt (toString_js (sampleEnv ''JWT_ACCESS_TOKEN_EXPIRATION_MS'')))) = Some 1010"
    by (simp add: sampleEnv_def toString_js_def parseInt_def strWhiteSpaceChar_def
          digitValue_def Let_def num_add_def timeClip_def)
  have er: "timeClip (num_add (Some 11)
              (parseInt (toString_js (sampleEnv ''JWT_REFRESH_TOKEN_EXPIRATION_MS'')))) = Some 5011"
    by (simp add: sampleEnv_def toString_js_def parseInt_def strWhiteSpaceChar_def
          digitValue_def Let_def num_add_def timeClip_def)
  show ?thesis
    unfolding generateTokens_signed
      [where sign = sampleSign and penv = sampleEnv and uid = "''u1''", OF sa sr] ea er
    by (rule refl)
qed

lemma sample_login:
  "login sampleSign sampleEncrypt sampleEnv 10 11 alice [] [alice, bob] =
     (Inr (), [alice\<lparr>refreshToken := Some ''#u1.sr.5000ms''\<rparr>, bob],
      [Cookie ''Authentication'' ''u1.sa.1000ms''
         \<lparr>httpOnly = True, secure = True, expires = Some 1010\<rparr>,
       Cookie ''Refresh'' ''u1.sr.5000ms''
         \<lparr>httpOnly = True, secure = True, expires = Some 5011\<rparr>])"
proof -
  have i: "user_id alice = ''u1''" by (simp add: alice_def)
  have f: "find (\<lambda>u. user_id u = ''u1'') [alice, bob] = Some alice"
    by (simp add: alice_def)
  have w: "withHash ''u1'' (Some (sampleEncrypt ''u1.sr.5000ms'')) [alice, bob] =
             [alice\<lparr>refreshToken := Some ''#u1.sr.5000ms''\<rparr>, bob]"
  proof -
    have b: "user_id bob = ''u2''" by (simp add: bob_def)
    show ?thesis by (simp add: withHash_def i b sampleEncrypt_def)
  qed
  show ?thesis
    unfolding login_def i sample_tokens sum.case tokenPair.simps
      setCookies_valid [where uid = "''u1''" and st = "[alice, bob]", OF f] w
      ACCESS_TOKEN_COOKIE_def REFRESH_TOKEN_COOKIE_def
    by simp
qed

theorem login_success_witness:
  "login sampleSign sampleEncrypt sampleEnv 10 11 alice [] [alice, bob] =
     (Inr (), [alice\<lparr>refreshToken := Some ''#u1.sr.5000ms''\<rparr>, bob],
      [Cookie ''Authentication'' ''u1.sa.1000ms''
         \<lparr>httpOnly = True, secure = True, expires = Some 1010\<rparr>,
       Cookie ''Refresh'' ''u1.sr.5000ms''
         \<lparr>httpOnly = True, secure = True, expires = Some 5011\<rparr>])
   \<and> (\<exists>row. find (\<lambda>x. user_id x = user_id alice)
                [alice\<lparr>refreshToken := Some ''#u1.sr.5000ms''\<rparr>, bob] = Some row
             \<and> refreshToken row = Some (sampleEncrypt ''u1.sr.5000ms''))"
proof -
  from login_success [OF sample_login] obtain t where
      g: "generateTokens sampleSign sampleEnv 10 11 (user_id alice) = Inr t"
    and row: "\<exists>row. find (\<lambda>x. user_id x = user_id alice)
                [alice\<lparr>refreshToken := Some ''#u1.sr.5000ms''\<rparr>, bob] = Some row
             \<and> refreshToken row = Some (sampleEncrypt (tp_refreshToken t))"
    by blast
  have i: "user_id alice = ''u1''" by (simp add: alice_def)
  from g have "tp_refreshToken t = ''u1.sr.5000ms''"
    unfolding i sample_tokens by auto
  with row sample_login show ?thesis by simp
qed

lemma signup_existing:
  assumes "find (\<lambda>u. email u = dto_email d) st = Some x"
  shows "signup sign encrypt penv newId now1 now2 d res st =
           (Inl (UnauthorizedException ''User already exists.''), st, res)"
  unfolding signup_eq using assms by simp

lemma signup_new:
  assumes "find (\<lambda>u. email u = dto_email d) st = None"
  shows "signup sign encrypt penv newId now1 now2 d res st =
           (case create encrypt newId d st of
              (Inl e, st2) \<Rightarrow> (Inl e, st2, res)
            | (Inr newUser, st2) \<Rightarrow> login sign encrypt penv now1 now2 newUser res st2)"
  unfolding signup_eq using assms by simp

lemma findOne_False_total: "findOne mail False st \<noteq> (Inl e, s)"
  unfolding findOne_False by simp

subsection \<open>Signup: the claim\<close>

text \<open>
  C5. When a row with the email of the signup input exists, \<open>signup\<close> raises
  \<open>UnauthorizedException\<close> (\<open>User already exists.\<close>) and the table and the response are
  unchanged: no row is created. The existence check, the lookup with the flag \<open>false\<close>,
  never raises. When no row has that email, \<open>signup\<close> creates the user through the store
  and is, from there on, \<open>login\<close> of the created user on the table with the new row (an
  exception of the creation propagates).
\<close>

theorem signup_spec:
  "(\<forall>x. find (\<lambda>u. email u = dto_email d) st = Some x \<longrightarrow>
       signup sign encrypt penv newId now1 now2 d res st =
         (Inl (UnauthorizedException ''User already exists.''), st, res))
   \<and> (\<forall>e s. findOne (dto_email d) False st \<noteq> (Inl e, s))
   \<and> (find (\<lambda>u. email u = dto_email d) st = None \<longrightarrow>
       signup sign encrypt penv newId now1 now2 d res st =
         (case create encrypt newId d st of
            (Inl e, st2) \<Rightarrow> (Inl e, st2, res)
          | (Inr newUser, st2) \<Rightarrow> login sign encrypt penv now1 now2 newUser res st2))"
proof -
  have a: "\<forall>x. find (\<lambda>u. email u = dto_email d) st = Some x \<longrightarrow>
       signup sign encrypt penv newId now1 now2 d res st =
         (Inl (UnauthorizedException ''User already exists.''), st, res)"
    using signup_existing by blast
  have b: "\<forall>e s. findOne (dto_email d) False st \<noteq> (Inl e, s)"
    using findOne_False_total by blast
  have c: "find (\<lambda>u. email u = dto_email d) st = None \<longrightarrow>
       signup sign encrypt penv newId now1 now2 d res st =
         (case create encrypt newId d st of
            (Inl e, st2) \<Rightarrow> (Inl e, st2, res)
          | (Inr newUser, st2) \<Rightarrow> login sign encrypt penv now1 now2 newUser res st2)"
    using signup_new by blast
  show ?thesis by (rule conjI [OF a conjI [OF b c]])
qed

lemma sample_create:
  "create sampleEncrypt ''u3'' carolDto [alice, bob] = (Inr carol, [alice, bob, carol])"
proof -
  have "\<not> list_ex (\<lambda>u. user_id u = ''u3'' \<or> username u = dto_username carolDto
                        \<or> email u = dto_email carolDto) [alice, bob]"
    by (simp add: alice_def bob_def carolDto_def)
  then show ?thesis
    unfolding create_eq by (simp add: carol_def carolDto_def sampleEncrypt_def)
qed

theorem signup_spec_witness:
  "find (\<lambda>u. email u = dto_email (carolDto\<lparr>dto_email := ''a@x''\<rparr>)) [alice, bob] = Some alice
   \<and> signup sampleSign sampleEncrypt sampleEnv ''u3'' 10 11 (carolDto\<lparr>dto_email := ''a@x''\<rparr>)
        [] [alice, bob] = (Inl (UnauthorizedException ''User already exists.''), [alice, bob], [])
   \<and> find (\<lambda>u. email u = dto_email carolDto) [alice, bob] = None
   \<and> signup sampleSign sampleEncrypt sampleEnv ''u3'' 10 11 carolDto [] [alice, bob] =
       login sampleSign sampleEncrypt sampleEnv 10 11 carol [] [alice, bob, carol]"
proof -
  have f: "find (\<lambda>u. email u = dto_email (carolDto\<lparr>dto_email := ''a@x''\<rparr>)) [alice, bob] = Some alice"
    by (simp add: alice_def)
  have n: "find (\<lambda>u. email u = dto_email carolDto) [alice, bob] = None"
    by (simp add: alice_def bob_def carolDto_def)
  have s1: "signup sampleSign sampleEncrypt sampleEnv ''u3'' 10 11 (carolDto\<lparr>dto_email := ''a@x''\<rparr>)
        [] [alice, bob] = (Inl (UnauthorizedException ''User already exists.''), [alice, bob], [])"
    by (rule signup_spec [THEN conjunct1, rule_format, OF f])
  have s2: "signup sampleSign sampleEncrypt sampleEnv ''u3'' 10 11 carolDto [] [alice, bob] =
       login sampleSign sampleEncrypt sampleEnv 10 11 carol [] [alice, bob, carol]"
    unfolding signup_spec [THEN conjunct2, THEN conjunct2, rule_format, OF n] sample_create
    by simp
  show ?thesis by (rule conjI [OF f conjI [OF s1 conjI [OF n s2]]])
qed

lemma setCookies_update_fails:
  assumes "update uid (Some (encrypt rtok)) st = (Inl e, st1)"
  shows "setCookies encrypt res uid atok rtok ea er st = (Inl e, st1, res)"
  unfolding setCookies_def using assms by simp

lemma login_update_fails:
  assumes g: "generateTokens sign penv now1 now2 (user_id usr) = Inr t"
      and u: "update (user_id usr) (Some (encrypt (tp_refreshToken t))) st = (Inl e, st1)"
  shows "login sign encrypt penv now1 now2 usr res st = (Inl e, st1, res)"
  unfolding login_def g
  using setCookies_update_fails [where encrypt = encrypt and rtok = "tp_refreshToken t", OF u]
  by simp

lemma update_found:
  assumes "find (\<lambda>x. user_id x = uid) st = Some u"
  shows "update uid h st = (Inr (u\<lparr>refreshToken := h\<rparr>), withHash uid h st)"
  unfolding update_eq assms by simp

lemma setCookies_cookie_after_update:
  assumes "setCookies encrypt res uid atok rtok ea er st = (r, st', res')" and "res' \<noteq> res"
  shows "\<exists>u. update uid (Some (encrypt rtok)) st = (Inr u, st')"
proof -
  from setCookies_changedD [OF assms] obtain u where
      f: "find (\<lambda>x. user_id x = uid) st = Some u"
    and s: "st' = withHash uid (Some (encrypt rtok)) st"
    by blast
  show ?thesis unfolding s update_found [OF f] by simp
qed

lemma login_cookie_after_update:
  assumes "login sign encrypt penv now1 now2 usr res st = (r, st', res')" and "res' \<noteq> res"
  shows "\<exists>t u. generateTokens sign penv now1 now2 (user_id usr) = Inr t
           \<and> update (user_id usr) (Some (encrypt (tp_refreshToken t))) st = (Inr u, st')"
proof -
  from login_changedD [OF assms] obtain t u where
      g: "generateTokens sign penv now1 now2 (user_id usr) = Inr t"
    and f: "find (\<lambda>x. user_id x = user_id usr) st = Some u"
    and s: "st' = withHash (user_id usr) (Some (encrypt (tp_refreshToken t))) st"
    by blast
  have "update (user_id usr) (Some (encrypt (tp_refreshToken t))) st =
          (Inr (u\<lparr>refreshToken := Some (encrypt (tp_refreshToken t))\<rparr>), st')"
    unfolding s by (rule update_found [OF f])
  with g show ?thesis by blast
qed

lemma signup_cookie_after_update:
  assumes "signup sign encrypt penv newId now1 now2 d res st = (r, st', res')"
      and "res' \<noteq> res"
  shows "\<exists>nu sc t u. create encrypt newId d st = (Inr nu, sc)
           \<and> generateTokens sign penv now1 now2 (user_id nu) = Inr t
           \<and> update (user_id nu) (Some (encrypt (tp_refreshToken t))) sc = (Inr u, st')"
proof -
  from signup_changedD [OF assms] obtain nu sc t u where
      c: "create encrypt newId d st = (Inr nu, sc)"
    and g: "generateTokens sign penv now1 now2 (user_id nu) = Inr t"
    and f: "find (\<lambda>x. user_id x = user_id nu) sc = Some u"
    and s: "st' = withHash (user_id nu) (Some (encrypt (tp_refreshToken t))) sc"
    by blast
  have "update (user_id nu) (Some (encrypt (tp_refreshToken t))) sc =
          (Inr (u\<lparr>refreshToken := Some (encrypt (tp_refreshToken t))\<rparr>), st')"
    unfolding s by (rule update_found [OF f])
  with c g show ?thesis by blast
qed

lemma signup_create_fails:
  assumes n: "find (\<lambda>u. email u = dto_email d) st = None"
      and c: "create encrypt newId d st = (Inl e, sc)"
  shows "signup sign encrypt penv newId now1 now2 d res st = (Inl e, sc, res)"
  unfolding signup_eq n c by simp

subsection \<open>Store before cookies: the claim\<close>

text \<open>
  C10. \<open>setCookies\<close> writes the hash to the store first and the cookies after. When the
  update of the store raises, \<open>setCookies\<close> raises the same exception and the response is
  the one it was given, and so does a \<open>login\<close> whose store update raises. Whenever
  \<open>setCookies\<close>, \<open>login\<close> or \<open>signup\<close> hands back a response with a cookie added, be it on
  return or with an exception raised by \<open>response.cookie\<close>, the update of the store has
  succeeded and the table is the one that update left: so no cookie is added unless the
  hash has been persisted. A \<open>signup\<close> whose creation of the user raises propagates that
  exception with no cookie added.
\<close>

theorem store_before_cookies:
  "(update uid (Some (encrypt rtok)) st = (Inl e, st1) \<longrightarrow>
      setCookies encrypt res uid atok rtok ea er st = (Inl e, st1, res))
   \<and> (setCookies encrypt res uid atok rtok ea er st = (r2, st2, res2) \<and> res2 \<noteq> res \<longrightarrow>
        (\<exists>u. update uid (Some (encrypt rtok)) st = (Inr u, st2)))
   \<and> (generateTokens sign penv now1 now2 (user_id usr) = Inr t
        \<and> update (user_id usr) (Some (encrypt (tp_refreshToken t))) st = (Inl e, st1) \<longrightarrow>
        login sign encrypt penv now1 now2 usr res st = (Inl e, st1, res))
   \<and> (login sign encrypt penv now1 now2 usr res st = (r3, st3, res3) \<and> res3 \<noteq> res \<longrightarrow>
        (\<exists>t u. generateTokens sign penv now1 now2 (user_id usr) = Inr t
              \<and> update (user_id usr) (Some (encrypt (tp_refreshToken t))) st = (Inr u, st3)))
   \<and> (signup sign encrypt penv newId now1 now2 d res st = (r4, st4, res4) \<and> res4 \<noteq> res \<longrightarrow>
        (\<exists>nu sc t u. create encrypt newId d st = (Inr nu, sc)
              \<and> generateTokens sign penv now1 now2 (user_id nu) = Inr t
              \<and> update (user_id nu) (Some (encrypt (tp_refreshToken t))) sc = (Inr u, st4)))
   \<and> (find (\<lambda>u. email u = dto_email d) st = None
        \<and> create encrypt newId d st = (Inl e5, st5) \<longrightarrow>
        signup sign encrypt penv newId now1 now2 d res st = (Inl e5, st5, res))"
proof -
  have a: "update uid (Some (encrypt rtok)) st = (Inl e, st1) \<longrightarrow>
      setCookies encrypt res uid atok rtok ea er st = (Inl e, st1, res)"
    by (rule impI) (rule setCookies_update_fails)
  have b: "setCookies encrypt res uid atok rtok ea er st = (r2, st2, res2) \<and> res2 \<noteq> res \<longrightarrow>
        (\<exists>u. update uid (Some (encrypt rtok)) st = (Inr u, st2))"
  proof
    assume h: "setCookies encrypt res uid atok rtok ea er st = (r2, st2, res2) \<and> res2 \<noteq> res"
    show "\<exists>u. update uid (Some (encrypt rtok)) st = (Inr u, st2)"
      by (rule setCookies_cookie_after_update [OF conjunct1 [OF h] conjunct2 [OF h]])
  qed
  have c: "generateTokens sign penv now1 now2 (user_id usr) = Inr t
        \<and> update (user_id usr) (Some (encrypt (tp_refreshToken t))) st = (Inl e, st1) \<longrightarrow>
        login sign encrypt penv now1 now2 usr res st = (Inl e, st1, res)"
  proof
    assume h: "generateTokens sign penv now1 now2 (user_id usr) = Inr t
        \<and> update (user_id usr) (Some (encrypt (tp_refreshToken t))) st = (Inl e, st1)"
    show "login sign encrypt penv now1 now2 usr res st = (Inl e, st1, res)"
      by (rule login_update_fails [where encrypt = encrypt and usr = usr and t = t,
                OF conjunct1 [OF h] conjunct2 [OF h]])
  qed
  have d: "login sign encrypt penv now1 now2 usr res st = (r3, st3, res3) \<and> res3 \<noteq> res \<longrightarrow>
        (\<exists>t u. generateTokens sign penv now1 now2 (user_id usr) = Inr t
              \<and> update (user_id usr) (Some (encrypt (tp_refreshToken t))) st = (Inr u, st3))"
  proof
    assume h: "login sign encrypt penv now1 now2 usr res st = (r3, st3, res3) \<and> res3 \<noteq> res"
    show "\<exists>t u. generateTokens sign penv now1 now2 (user_id usr) = Inr t
              \<and> update (user_id usr) (Some (encrypt (tp_refreshToken t))) st = (Inr u, st3)"
      by (rule login_cookie_after_update [OF conjunct1 [OF h] conjunct2 [OF h]])
  qed
  have f: "signup sign encrypt penv newId now1 now2 d res st = (r4, st4, res4) \<and> res4 \<noteq> res \<longrightarrow>
        (\<exists>nu sc t u. create encrypt newId d st = (Inr nu, sc)
              \<and> generateTokens sign penv now1 now2 (user_id nu) = Inr t
              \<and> update (user_id nu) (Some (encrypt (tp_refreshToken t))) sc = (Inr u, st4))"
  proof
    assume h: "signup sign encrypt penv newId now1 now2 d res st = (r4, st4, res4) \<and> res4 \<noteq> res"
    show "\<exists>nu sc t u. create encrypt newId d st = (Inr nu, sc)
              \<and> generateTokens sign penv now1 now2 (user_id nu) = Inr t
              \<and> update (user_id nu) (Some (encrypt (tp_refreshToken t))) sc = (Inr u, st4)"
      by (rule signup_cookie_after_update [OF conjunct1 [OF h] conjunct2 [OF h]])
  qed
  have g: "find (\<lambda>u. email u = dto_email d) st = None
        \<and> create encrypt newId d st = (Inl e5, st5) \<longrightarrow>
        signup sign encrypt penv newId now1 now2 d res st = (Inl e5, st5, res)"
  proof
    assume h: "find (\<lambda>u. email u = dto_email d) st = None
        \<and> create encrypt newId d st = (Inl e5, st5)"
    show "signup sign encrypt penv newId now1 now2 d res st = (Inl e5, st5, res)"
      by (rule signup_create_fails [OF conjunct1 [OF h] conjunct2 [OF h]])
  qed
  show ?thesis
    by (rule conjI [OF a conjI [OF b conjI [OF c conjI [OF d conjI [OF f g]]]]])
qed

lemma sample_update_fails:
  "update ''u1'' (Some (sampleEncrypt ''u1.sr.5000ms'')) [bob] =
     (Inl (NotFoundException ''User not found''), [bob])"
proof -
  have f: "find (\<lambda>u. user_id u = ''u1'') [bob] = None" by (simp add: bob_def)
  show ?thesis unfolding update_eq f by simp
qed

lemma sample_tokens_long:
  "generateTokens sampleSign longEnv 10 11 ''u1'' =
     Inr \<lparr>tp_expireAccessToken = Some 1010, tp_expireRefreshToken = None,
          tp_accessToken = ''u1.sa.1000ms'', tp_refreshToken = ''u1.sr.9000000000000000ms''\<rparr>"
proof -
  have sa: "sampleSign \<lparr>userId = ''u1''\<rparr>
             \<lparr>secret = longEnv ''JWT_ACCESS_TOKEN_SECRET'',
              expiresIn = toString_js (longEnv ''JWT_ACCESS_TOKEN_EXPIRATION_MS'') @ ''ms''\<rparr>
            = Inr ''u1.sa.1000ms''"
    by (simp add: sampleSign_def longEnv_def toString_js_def)
  have sr: "sampleSign \<lparr>userId = ''u1''\<rparr>
             \<lparr>secret = longEnv ''JWT_REFRESH_TOKEN_SECRET'',
              expiresIn = toString_js (longEnv ''JWT_REFRESH_TOKEN_EXPIRATION_MS'') @ ''ms''\<rparr>
            = Inr ''u1.sr.9000000000000000ms''"
    by (simp add: sampleSign_def longEnv_def toString_js_def)
  have ea: "timeClip (num_add (Some 10)
              (parseInt (toString_js (longEnv ''JWT_ACCESS_TOKEN_EXPIRATION_MS'')))) = Some 1010"
    by (simp add: longEnv_def toString_js_def parseInt_def strWhiteSpaceChar_def
          digitValue_def Let_def num_add_def timeClip_def)
  have er: "timeClip (num_add (Some 11)
              (parseInt (toString_js (longEnv ''JWT_REFRESH_TOKEN_EXPIRATION_MS'')))) = None"
    by (simp add: longEnv_def toString_js_def parseInt_def strWhiteSpaceChar_def
          digitValue_def Let_def num_add_def timeClip_def)
  show ?thesis
    unfolding generateTokens_signed
      [where sign = sampleSign and penv = longEnv and uid = "''u1''", OF sa sr] ea er
    by (rule refl)
qed

lemma sample_login_long:
  "login sampleSign sampleEncrypt longEnv 10 11 alice [] [alice, bob] =
     (Inl (TypeError ''option expires is invalid''),
      [alice\<lparr>refreshToken := Some ''#u1.sr.9000000000000000ms''\<rparr>, bob],
      [Cookie ''Authentication'' ''u1.sa.1000ms''
         \<lparr>httpOnly = True, secure = True, expires = Some 1010\<rparr>])"
proof -
  have i: "user_id alice = ''u1''" by (simp add: alice_def)
  have f: "find (\<lambda>u. user_id u = ''u1'') [alice, bob] = Some alice"
    by (simp add: alice_def)
  have w: "withHash ''u1'' (Some (sampleEncrypt ''u1.sr.9000000000000000ms'')) [alice, bob] =
             [alice\<lparr>refreshToken := Some ''#u1.sr.9000000000000000ms''\<rparr>, bob]"
  proof -
    have b: "user_id bob = ''u2''" by (simp add: bob_def)
    show ?thesis by (simp add: withHash_def i b sampleEncrypt_def)
  qed
  show ?thesis
    unfolding login_def i sample_tokens_long sum.case tokenPair.simps
      setCookies_second_invalid [where uid = "''u1''" and st = "[alice, bob]", OF f] w
      ACCESS_TOKEN_COOKIE_def
    by simp
qed

lemma sample_create_fails:
  "create sampleEncrypt ''u4'' aliceDto [alice, bob] =
     (Inl (StoreError ''Unique constraint failed''), [alice, bob])"
proof -
  have "list_ex (\<lambda>u. user_id u = ''u4'' \<or> username u = dto_username aliceDto
                      \<or> email u = dto_email aliceDto) [alice, bob]"
    by (simp add: alice_def aliceDto_def)
  then show ?thesis unfolding create_eq by simp
qed

lemma sample_tokens_carol:
  "generateTokens sampleSign sampleEnv 10 11 ''u3'' =
     Inr \<lparr>tp_expireAccessToken = Some 1010, tp_expireRefreshToken = Some 5011,
          tp_accessToken = ''u3.sa.1000ms'', tp_refreshToken = ''u3.sr.5000ms''\<rparr>"
proof -
  have sa: "sampleSign \<lparr>userId = ''u3''\<rparr>
             \<lparr>secret = sampleEnv ''JWT_ACCESS_TOKEN_SECRET'',
              expiresIn = toString_js (sampleEnv ''JWT_ACCESS_TOKEN_EXPIRATION_MS'') @ ''ms''\<rparr>
            = Inr ''u3.sa.1000ms''"
    by (simp add: sampleSign_def sampleEnv_def toString_js_def)
  have sr: "sampleSign \<lparr>userId = ''u3''\<rparr>
             \<lparr>secret = sampleEnv ''JWT_REFRESH_TOKEN_SECRET'',
              expiresIn = toString_js (sampleEnv ''JWT_REFRESH_TOKEN_EXPIRATION_MS'') @ ''ms''\<rparr>
            = Inr ''u3.sr.5000ms''"
    by (simp add: sampleSign_def sampleEnv_def toString_js_def)
  have ea: "timeClip (num_add (Some 10)
              (parseInt (toString_js (sampleEnv ''JWT_ACCESS_TOKEN_EXPIRATION_MS'')))) = Some 1010"
    by (simp add: sampleEnv_def toString_js_def parseInt_def strWhiteSpaceChar_def
          digitValue_def Let_def num_add_def timeClip_def)
  have er: "timeClip (num_add (Some 11)
              (parseInt (toString_js (sampleEnv ''JWT_REFRESH_TOKEN_EXPIRATION_MS'')))) = Some 5011"
    by (simp add: sampleEnv_def toString_js_def parseInt_def strWhiteSpaceChar_def
          digitValue_def Let_def num_add_def timeClip_def)
  show ?thesis
    unfolding generateTokens_signed
      [where sign = sampleSign and penv = sampleEnv and uid = "''u3''", OF sa sr] ea er
    by (rule refl)
qed

lemma sample_signup:
  "signup sampleSign sampleEncrypt sampleEnv ''u3'' 10 11 carolDto [] [alice, bob] =
     (Inr (), [alice, bob, carol\<lparr>refreshToken := Some ''#u3.sr.5000ms''\<rparr>],
      [Cookie ''Authentication'' ''u3.sa.1000ms''
         \<lparr>httpOnly = True, secure = True, expires = Some 1010\<rparr>,
       Cookie ''Refresh'' ''u3.sr.5000ms''
         \<lparr>httpOnly = True, secure = True, expires = Some 5011\<rparr>])"
proof -
  have a: "user_id alice = ''u1''" by (simp add: alice_def)
  have b: "user_id bob = ''u2''" by (simp add: bob_def)
  have c: "user_id carol = ''u3''" by (simp add: carol_def)
  have n: "find (\<lambda>u. email u = dto_email carolDto) [alice, bob] = None"
    by (simp add: alice_def bob_def carolDto_def)
  have f: "find (\<lambda>u. user_id u = ''u3'') [alice, bob, carol] = Some carol"
    by (simp add: a b c)
  have w: "withHash ''u3'' (Some (sampleEncrypt ''u3.sr.5000ms'')) [alice, bob, carol] =
             [alice, bob, carol\<lparr>refreshToken := Some ''#u3.sr.5000ms''\<rparr>]"
    by (simp add: withHash_def a b c sampleEncrypt_def)
  have l: "login sampleSign sampleEncrypt sampleEnv 10 11 carol [] [alice, bob, carol] =
     (Inr (), [alice, bob, carol\<lparr>refreshToken := Some ''#u3.sr.5000ms''\<rparr>],
      [Cookie ''Authentication'' ''u3.sa.1000ms''
         \<lparr>httpOnly = True, secure = True, expires = Some 1010\<rparr>,
       Cookie ''Refresh'' ''u3.sr.5000ms''
         \<lparr>httpOnly = True, secure = True, expires = Some 5011\<rparr>])"
    unfolding login_def c sample_tokens_carol sum.case tokenPair.simps
      setCookies_valid [where uid = "''u3''" and st = "[alice, bob, carol]", OF f] w
      ACCESS_TOKEN_COOKIE_def REFRESH_TOKEN_COOKIE_def
    by simp
  show ?thesis
    unfolding signup_new [OF n] sample_create using l by simp
qed

lemma sample_setCookies:
  "setCookies sampleEncrypt [] ''u1'' ''at'' ''rt'' (Some 1) (Some 2) [alice, bob] =
     (Inr (), [alice\<lparr>refreshToken := Some ''#rt''\<rparr>, bob],
      [Cookie ''Authentication'' ''at'' \<lparr>httpOnly = True, secure = True, expires = Some 1\<rparr>,
       Cookie ''Refresh'' ''rt'' \<lparr>httpOnly = True, secure = True, expires = Some 2\<rparr>])"
proof -
  have i: "user_id alice = ''u1''" by (simp add: alice_def)
  have b: "user_id bob = ''u2''" by (simp add: bob_def)
  have f: "find (\<lambda>u. user_id u = ''u1'') [alice, bob] = Some alice"
    by (simp add: i)
  have w: "withHash ''u1'' (Some (sampleEncrypt ''rt'')) [alice, bob] =
             [alice\<lparr>refreshToken := Some ''#rt''\<rparr>, bob]"
    by (simp add: withHash_def i b sampleEncrypt_def)
  show ?thesis
    unfolding setCookies_valid [where uid = "''u1''" and st = "[alice, bob]", OF f] w
      ACCESS_TOKEN_COOKIE_def REFRESH_TOKEN_COOKIE_def
    by simp
qed

theorem store_before_cookies_witness:
  "generateTokens sampleSign sampleEnv 10 11 (user_id alice) =
     Inr \<lparr>tp_expireAccessToken = Some 1010, tp_expireRefreshToken = Some 5011,
          tp_accessToken = ''u1.sa.1000ms'', tp_refreshToken = ''u1.sr.5000ms''\<rparr>
   \<and> update (user_id alice) (Some (sampleEncrypt ''u1.sr.5000ms'')) [bob] =
       (Inl (NotFoundException ''User not found''), [bob])
   \<and> login sampleSign sampleEncrypt sampleEnv 10 11 alice [ClearCookie ''Refresh''] [bob] =
       (Inl (NotFoundException ''User not found''), [bob], [ClearCookie ''Refresh''])
   \<and> login sampleSign sampleEncrypt longEnv 10 11 alice [] [alice, bob] =
       (Inl (TypeError ''option expires is invalid''),
        [alice\<lparr>refreshToken := Some ''#u1.sr.9000000000000000ms''\<rparr>, bob],
        [Cookie ''Authentication'' ''u1.sa.1000ms''
           \<lparr>httpOnly = True, secure = True, expires = Some 1010\<rparr>])
   \<and> (\<exists>t u. generateTokens sampleSign longEnv 10 11 (user_id alice) = Inr t
          \<and> update (user_id alice) (Some (sampleEncrypt (tp_refreshToken t))) [alice, bob] =
              (Inr u, [alice\<lparr>refreshToken := Some ''#u1.sr.9000000000000000ms''\<rparr>, bob]))
   \<and> (\<exists>t u. generateTokens sampleSign sampleEnv 10 11 (user_id alice) = Inr t
          \<and> update (user_id alice) (Some (sampleEncrypt (tp_refreshToken t))) [alice, bob] =
              (Inr u, [alice\<lparr>refreshToken := Some ''#u1.sr.5000ms''\<rparr>, bob]))
   \<and> find (\<lambda>u. email u = dto_email aliceDto) [alice, bob] = None
   \<and> create sampleEncrypt ''u4'' aliceDto [alice, bob] =
       (Inl (StoreError ''Unique constraint failed''), [alice, bob])
   \<and> signup sampleSign sampleEncrypt sampleEnv ''u4'' 10 11 aliceDto [] [alice, bob] =
       (Inl (StoreError ''Unique constraint failed''), [alice, bob], [])
   \<and> setCookies sampleEncrypt [ClearCookie ''Refresh''] ''u1'' ''at'' ''u1.sr.5000ms''
        (Some 1) (Some 2) [bob] =
       (Inl (NotFoundException ''User not found''), [bob], [ClearCookie ''Refresh''])
   \<and> (\<exists>u. update ''u1'' (Some (sampleEncrypt ''rt'')) [alice, bob] =
              (Inr u, [alice\<lparr>refreshToken := Some ''#rt''\<rparr>, bob]))
   \<and> (\<exists>nu sc t u. create sampleEncrypt ''u3'' carolDto [alice, bob] = (Inr nu, sc)
          \<and> generateTokens sampleSign sampleEnv 10 11 (user_id nu) = Inr t
          \<and> update (user_id nu) (Some (sampleEncrypt (tp_refreshToken t))) sc =
              (Inr u, [alice, bob, carol\<lparr>refreshToken := Some ''#u3.sr.5000ms''\<rparr>]))"
proof -
  have i: "user_id alice = ''u1''" by (simp add: alice_def)
  have sc1: "setCookies sampleEncrypt [ClearCookie ''Refresh''] ''u1'' ''at'' ''u1.sr.5000ms''
        (Some 1) (Some 2) [bob] =
       (Inl (NotFoundException ''User not found''), [bob], [ClearCookie ''Refresh''])"
    by (rule store_before_cookies
      [where encrypt = sampleEncrypt and uid = "''u1''" and rtok = "''u1.sr.5000ms''"
         and st = "[bob]" and res = "[ClearCookie ''Refresh'']",
       THEN conjunct1, THEN mp, OF sample_update_fails])
  have ne0: "[Cookie ''Authentication'' ''at''
                \<lparr>httpOnly = True, secure = True, expires = Some 1\<rparr>,
              Cookie ''Refresh'' ''rt''
                \<lparr>httpOnly = True, secure = True, expires = Some 2\<rparr>] \<noteq> []"
    by simp
  have sc2: "\<exists>u. update ''u1'' (Some (sampleEncrypt ''rt'')) [alice, bob] =
              (Inr u, [alice\<lparr>refreshToken := Some ''#rt''\<rparr>, bob])"
    by (rule store_before_cookies
      [where encrypt = sampleEncrypt and uid = "''u1''" and rtok = "''rt''"
         and st = "[alice, bob]" and res = "[]",
       THEN conjunct2, THEN conjunct1, THEN mp, OF conjI [OF sample_setCookies ne0]])
  have ne3: "[Cookie ''Authentication'' ''u3.sa.1000ms''
         \<lparr>httpOnly = True, secure = True, expires = Some 1010\<rparr>,
       Cookie ''Refresh'' ''u3.sr.5000ms''
         \<lparr>httpOnly = True, secure = True, expires = Some 5011\<rparr>] \<noteq> []"
    by simp
  have su: "\<exists>nu sc t u. create sampleEncrypt ''u3'' carolDto [alice, bob] = (Inr nu, sc)
          \<and> generateTokens sampleSign sampleEnv 10 11 (user_id nu) = Inr t
          \<and> update (user_id nu) (Some (sampleEncrypt (tp_refreshToken t))) sc =
              (Inr u, [alice, bob, carol\<lparr>refreshToken := Some ''#u3.sr.5000ms''\<rparr>])"
    by (rule store_before_cookies
      [where sign = sampleSign and encrypt = sampleEncrypt and penv = sampleEnv
         and ?now1.0 = 10 and ?now2.0 = 11 and d = carolDto and newId = "''u3''"
         and st = "[alice, bob]" and res = "[]",
       THEN conjunct2, THEN conjunct2, THEN conjunct2, THEN conjunct2, THEN conjunct1,
       THEN mp, OF conjI [OF sample_signup ne3]])
  have g: "generateTokens sampleSign sampleEnv 10 11 (user_id alice) =
     Inr \<lparr>tp_expireAccessToken = Some 1010, tp_expireRefreshToken = Some 5011,
          tp_accessToken = ''u1.sa.1000ms'', tp_refreshToken = ''u1.sr.5000ms''\<rparr>"
    unfolding i by (rule sample_tokens)
  have u: "update (user_id alice) (Some (sampleEncrypt (tp_refreshToken
              \<lparr>tp_expireAccessToken = Some 1010, tp_expireRefreshToken = Some 5011,
               tp_accessToken = ''u1.sa.1000ms'', tp_refreshToken = ''u1.sr.5000ms''\<rparr>))) [bob] =
       (Inl (NotFoundException ''User not found''), [bob])"
    unfolding i tokenPair.simps by (rule sample_update_fails)
  have l: "login sampleSign sampleEncrypt sampleEnv 10 11 alice [ClearCookie ''Refresh''] [bob] =
       (Inl (NotFoundException ''User not found''), [bob], [ClearCookie ''Refresh''])"
    by (rule store_before_cookies
      [where sign = sampleSign and encrypt = sampleEncrypt and penv = sampleEnv
         and ?now1.0 = 10 and ?now2.0 = 11 and usr = alice and st = "[bob]"
         and res = "[ClearCookie ''Refresh'']"
         and e = "NotFoundException ''User not found''" and ?st1.0 = "[bob]"
         and t = "\<lparr>tp_expireAccessToken = Some 1010, tp_expireRefreshToken = Some 5011,
               tp_accessToken = ''u1.sa.1000ms'', tp_refreshToken = ''u1.sr.5000ms''\<rparr>",
       THEN conjunct2, THEN conjunct2, THEN conjunct1, THEN mp, OF conjI [OF g u]])
  have u': "update (user_id alice) (Some (sampleEncrypt ''u1.sr.5000ms'')) [bob] =
       (Inl (NotFoundException ''User not found''), [bob])"
    unfolding i by (rule sample_update_fails)
  have ne1: "[Cookie ''Authentication'' ''u1.sa.1000ms''
           \<lparr>httpOnly = True, secure = True, expires = Some 1010\<rparr>] \<noteq> []"
    by simp
  have long: "\<exists>t u. generateTokens sampleSign longEnv 10 11 (user_id alice) = Inr t
          \<and> update (user_id alice) (Some (sampleEncrypt (tp_refreshToken t))) [alice, bob] =
              (Inr u, [alice\<lparr>refreshToken := Some ''#u1.sr.9000000000000000ms''\<rparr>, bob])"
    by (rule store_before_cookies
      [where sign = sampleSign and encrypt = sampleEncrypt and penv = longEnv
         and ?now1.0 = 10 and ?now2.0 = 11 and usr = alice and st = "[alice, bob]"
         and res = "[]",
       THEN conjunct2, THEN conjunct2, THEN conjunct2, THEN conjunct1, THEN mp,
       OF conjI [OF sample_login_long ne1]])
  have ne2: "[Cookie ''Authentication'' ''u1.sa.1000ms''
         \<lparr>httpOnly = True, secure = True, expires = Some 1010\<rparr>,
       Cookie ''Refresh'' ''u1.sr.5000ms''
         \<lparr>httpOnly = True, secure = True, expires = Some 5011\<rparr>] \<noteq> []"
    by simp
  have good: "\<exists>t u. generateTokens sampleSign sampleEnv 10 11 (user_id alice) = Inr t
          \<and> update (user_id alice) (Some (sampleEncrypt (tp_refreshToken t))) [alice, bob] =
              (Inr u, [alice\<lparr>refreshToken := Some ''#u1.sr.5000ms''\<rparr>, bob])"
    by (rule store_before_cookies
      [where sign = sampleSign and encrypt = sampleEncrypt and penv = sampleEnv
         and ?now1.0 = 10 and ?now2.0 = 11 and usr = alice and st = "[alice, bob]"
         and res = "[]",
       THEN conjunct2, THEN conjunct2, THEN conjunct2, THEN conjunct1, THEN mp,
       OF conjI [OF sample_login ne2]])
  have n: "find (\<lambda>u. email u = dto_email aliceDto) [alice, bob] = None"
    by (simp add: alice_def bob_def aliceDto_def)
  have s: "signup sampleSign sampleEncrypt sampleEnv ''u4'' 10 11 aliceDto [] [alice, bob] =
       (Inl (StoreError ''Unique constraint failed''), [alice, bob], [])"
    by (rule store_before_cookies
      [where sign = sampleSign and encrypt = sampleEncrypt and penv = sampleEnv
         and ?now1.0 = 10 and ?now2.0 = 11 and d = aliceDto and newId = "''u4''"
         and st = "[alice, bob]" and res = "[]",
       THEN conjunct2, THEN conjunct2, THEN conjunct2, THEN conjunct2, THEN conjunct2,
       THEN mp, OF conjI [OF n sample_create_fails]])
  show ?thesis
    by (rule conjI [OF g conjI [OF u' conjI [OF l conjI [OF sample_login_long conjI [OF long
          conjI [OF good conjI [OF n conjI [OF sample_create_fails conjI [OF s
            conjI [OF sc1 conjI [OF sc2 su]]]]]]]]]]])
qed

section \<open>Properties of the stored hashes\<close>

subsection \<open>The hashes of a user id, and the table over sequences of requests\<close>

lemma storedHashes_Nil [simp]: "storedHashes uid [] = []"
  by (simp add: storedHashes_def)

lemma storedHashes_Cons:
  "storedHashes uid (x # xs) =
     (if user_id x = uid then (case refreshToken x of None \<Rightarrow> [] | Some h \<Rightarrow> [h]) else [])
     @ storedHashes uid xs"
  by (simp add: storedHashes_def)

lemma storedHashes_append:
  "storedHashes uid (xs @ ys) = storedHashes uid xs @ storedHashes uid ys"
  by (simp add: storedHashes_def)

lemma storedHashes_empty_iff:
  "storedHashes uid st = [] \<longleftrightarrow> (\<forall>x \<in> set st. user_id x = uid \<longrightarrow> refreshToken x = None)"
  by (induction st) (auto simp: storedHashes_Cons split: option.splits)

lemma withHash_Nil [simp]: "withHash i h [] = []"
  by (simp add: withHash_def)

lemma withHash_Cons:
  "withHash i h (x # xs) = (if user_id x = i then x\<lparr>refreshToken := h\<rparr> else x) # withHash i h xs"
  by (simp add: withHash_def)

lemma storedHashes_withHash_other:
  "i \<noteq> uid \<Longrightarrow> storedHashes uid (withHash i h st) = storedHashes uid st"
  by (induction st) (auto simp: storedHashes_Cons withHash_Cons)

lemma storedHashes_withHash_None: "storedHashes uid (withHash uid None st) = []"
  by (induction st) (auto simp: storedHashes_Cons withHash_Cons)

lemma storedHashes_withHash_absent:
  "uid \<notin> set (map user_id st) \<Longrightarrow> storedHashes uid (withHash i h st) = []"
  by (induction st) (auto simp: storedHashes_Cons withHash_Cons)

lemma storedHashes_absent:
  "uid \<notin> set (map user_id st) \<Longrightarrow> storedHashes uid st = []"
  by (induction st) (auto simp: storedHashes_Cons)

lemma storedHashes_withHash_distinct:
  "distinct (map user_id st) \<Longrightarrow> uid \<in> set (map user_id st) \<Longrightarrow>
     storedHashes uid (withHash uid (Some v) st) = [v]"
proof (induction st)
  case Nil
  then show ?case by simp
next
  case (Cons x xs)
  show ?case
  proof (cases "user_id x = uid")
    case True
    with Cons.prems have "uid \<notin> set (map user_id xs)" by simp
    then have "storedHashes uid (withHash uid (Some v) xs) = []"
      by (rule storedHashes_withHash_absent)
    with True show ?thesis by (simp add: storedHashes_Cons withHash_Cons)
  next
    case False
    with Cons.prems have "distinct (map user_id xs)" and "uid \<in> set (map user_id xs)" by auto
    then have "storedHashes uid (withHash uid (Some v) xs) = [v]" by (rule Cons.IH)
    with False show ?thesis by (simp add: storedHashes_Cons withHash_Cons)
  qed
qed

lemma storedHashes_distinct_le1:
  "distinct (map user_id st) \<Longrightarrow> length (storedHashes uid st) \<le> 1"
proof (induction st)
  case Nil
  then show ?case by simp
next
  case (Cons x xs)
  show ?case
  proof (cases "user_id x = uid")
    case True
    with Cons.prems have "uid \<notin> set (map user_id xs)" by simp
    then have "storedHashes uid xs = []" by (rule storedHashes_absent)
    with True show ?thesis by (simp add: storedHashes_Cons split: option.splits)
  next
    case False
    with Cons show ?thesis by (simp add: storedHashes_Cons)
  qed
qed

lemma find_None_ids: "find (\<lambda>u. user_id u = uid) st = None \<longleftrightarrow> uid \<notin> set (map user_id st)"
  by (induction st) auto

lemma jar_append: "jar (xs @ ys) j = jar ys (jar xs j)"
proof (induction xs arbitrary: j)
  case Nil
  show ?case by simp
next
  case (Cons c cs)
  then show ?case by (cases c) (simp_all add: fun_upd_def)
qed

lemma jar_cleared:
  "jar (res @ [ClearCookie REFRESH_TOKEN_COOKIE, ClearCookie ACCESS_TOKEN_COOKIE]) j
      REFRESH_TOKEN_COOKIE = None
   \<and> jar (res @ [ClearCookie REFRESH_TOKEN_COOKIE, ClearCookie ACCESS_TOKEN_COOKIE]) j
      ACCESS_TOKEN_COOKIE = None"
  unfolding jar_append by (simp add: cookie_names)

lemma login_store:
  "fst (snd (login sign encrypt penv now1 now2 usr res st)) = st
   \<or> (\<exists>h. user_id usr \<in> set (map user_id st)
          \<and> fst (snd (login sign encrypt penv now1 now2 usr res st)) = withHash (user_id usr) (Some h) st)"
proof (cases "generateTokens sign penv now1 now2 (user_id usr)")
  case (Inl e)
  then show ?thesis unfolding login_def by simp
next
  case (Inr t)
  obtain r st' res' where
    c: "setCookies encrypt res (user_id usr) (tp_accessToken t) (tp_refreshToken t)
            (tp_expireAccessToken t) (tp_expireRefreshToken t) st = (r, st', res')"
    by (cases "setCookies encrypt res (user_id usr) (tp_accessToken t) (tp_refreshToken t)
            (tp_expireAccessToken t) (tp_expireRefreshToken t) st") auto
  have l: "fst (snd (login sign encrypt penv now1 now2 usr res st)) = st'"
    unfolding login_def Inr using c by simp
  from setCookies_storeD [OF c] show ?thesis
  proof
    assume "st' = st"
    with l show ?thesis by simp
  next
    assume a: "(\<exists>u. find (\<lambda>u. user_id u = user_id usr) st = Some u)
                \<and> st' = withHash (user_id usr) (Some (encrypt (tp_refreshToken t))) st"
    then have "user_id usr \<in> set (map user_id st)"
      using find_None_ids [of "user_id usr" st] by auto
    with a l show ?thesis by auto
  qed
qed

lemma logout_store:
  "fst (snd (logout usr res st)) = st
   \<or> fst (snd (logout usr res st)) = withHash (user_id usr) None st"
  unfolding logout_eq by (cases "find (\<lambda>u. user_id u = user_id usr) st") simp_all

lemma create_store:
  "create encrypt newId d st = (r, st2) \<Longrightarrow>
     (st2 = st \<and> (\<exists>e. r = Inl e))
     \<or> (\<exists>nu. r = Inr nu \<and> st2 = st @ [nu] \<and> user_id nu = newId \<and> refreshToken nu = None
              \<and> newId \<notin> set (map user_id st))"
  unfolding create_eq by (auto simp: list_ex_iff split: if_splits)

lemma signup_store:
  "fst (snd (signup sign encrypt penv newId now1 now2 d res st)) = st
   \<or> (\<exists>nu. user_id nu = newId \<and> refreshToken nu = None \<and> newId \<notin> set (map user_id st)
         \<and> (fst (snd (signup sign encrypt penv newId now1 now2 d res st)) = st @ [nu]
             \<or> (\<exists>h. fst (snd (signup sign encrypt penv newId now1 now2 d res st)) =
                      withHash newId (Some h) (st @ [nu]))))"
proof (cases "find (\<lambda>u. email u = dto_email d) st")
  case (Some x)
  then show ?thesis unfolding signup_eq by simp
next
  case None
  obtain r st2 where c: "create encrypt newId d st = (r, st2)" by (cases "create encrypt newId d st")
  from create_store [OF c] show ?thesis
  proof
    assume "st2 = st \<and> (\<exists>e. r = Inl e)"
    with None c show ?thesis unfolding signup_eq by auto
  next
    assume "\<exists>nu. r = Inr nu \<and> st2 = st @ [nu] \<and> user_id nu = newId \<and> refreshToken nu = None
              \<and> newId \<notin> set (map user_id st)"
    then obtain nu where r: "r = Inr nu" and s: "st2 = st @ [nu]" and i: "user_id nu = newId"
        and n: "refreshToken nu = None" and f: "newId \<notin> set (map user_id st)"
      by blast
    have eq: "signup sign encrypt penv newId now1 now2 d res st =
                login sign encrypt penv now1 now2 nu res (st @ [nu])"
      unfolding signup_eq using None c r s by simp
    from login_store [of sign encrypt penv now1 now2 nu res "st @ [nu]"]
    show ?thesis unfolding eq using i n f by auto
  qed
qed

lemma handle_keeps_empty:
  assumes e: "storedHashes uid st = []" and n: "\<not> issuesFor uid r"
  shows "storedHashes uid (handle sign encrypt cmp penv r st) = []"
proof (cases r)
  case (Login usr now1 now2)
  with n have ne: "user_id usr \<noteq> uid" by simp
  from login_store [of sign encrypt penv now1 now2 usr "[]" st] Login e ne
  show ?thesis by (auto simp: storedHashes_withHash_other)
next
  case (Signup d newId now1 now2)
  with n have ne: "newId \<noteq> uid" by simp
  from signup_store [of sign encrypt penv newId now1 now2 d "[]" st] Signup e ne
  show ?thesis
    by (auto simp: storedHashes_withHash_other storedHashes_append storedHashes_Cons)
next
  case (Logout usr)
  show ?thesis
  proof (cases "user_id usr = uid")
    case True
    from logout_store [of usr "[]" st] Logout e True
    show ?thesis by (auto simp: storedHashes_withHash_None)
  next
    case False
    from logout_store [of usr "[]" st] Logout e False
    show ?thesis by (auto simp: storedHashes_withHash_other)
  qed
next
  case (ValidateUser mail pw)
  with e show ?thesis by (simp add: validateUser_eq split: option.splits)
next
  case (VerifyUserRefreshToken token i)
  with e show ?thesis by (simp add: verifyUserRefreshToken_eq split: option.splits)
qed

lemma serve_keeps_empty:
  "storedHashes uid st = [] \<Longrightarrow> \<forall>r \<in> set reqs. \<not> issuesFor uid r \<Longrightarrow>
     storedHashes uid (serve sign encrypt cmp penv reqs st) = []"
proof (induction reqs arbitrary: st)
  case Nil
  then show ?case by simp
next
  case (Cons r rs)
  from Cons.prems have "storedHashes uid (handle sign encrypt cmp penv r st) = []"
    by (simp add: handle_keeps_empty)
  moreover from Cons.prems have "\<forall>r \<in> set rs. \<not> issuesFor uid r" by simp
  ultimately show ?case using Cons.IH by simp
qed

lemma verify_without_hash:
  assumes "storedHashes uid st = []"
  shows "fst (verifyUserRefreshToken cmp token uid st) =
           Inl (UnauthorizedException ''Refresh token is not valid.'')"
proof (cases "find (\<lambda>x. user_id x = uid) st")
  case None
  then show ?thesis unfolding verifyUserRefreshToken_eq by simp
next
  case (Some u)
  from find_Some_holds [OF Some] assms have "refreshToken u = None"
    by (simp add: storedHashes_empty_iff)
  with Some show ?thesis unfolding verifyUserRefreshToken_eq by simp
qed

lemma handle_keeps_distinct:
  assumes d: "distinct (map user_id st)"
  shows "distinct (map user_id (handle sign encrypt cmp penv r st))"
proof (cases r)
  case (Login usr now1 now2)
  from login_store [of sign encrypt penv now1 now2 usr "[]" st] Login d
  show ?thesis by (auto simp: ids_withHash)
next
  case (Signup dto newId now1 now2)
  from signup_store [of sign encrypt penv newId now1 now2 dto "[]" st] Signup d
  show ?thesis by (auto simp: ids_withHash)
next
  case (Logout usr)
  from logout_store [of usr "[]" st] Logout d
  show ?thesis by (auto simp: ids_withHash)
next
  case (ValidateUser mail pw)
  with d show ?thesis by (simp add: validateUser_eq split: option.splits)
next
  case (VerifyUserRefreshToken token i)
  with d show ?thesis by (simp add: verifyUserRefreshToken_eq split: option.splits)
qed

lemma serve_keeps_distinct:
  "distinct (map user_id st) \<Longrightarrow> distinct (map user_id (serve sign encrypt cmp penv reqs st))"
  by (induction reqs arbitrary: st) (simp_all add: handle_keeps_distinct)

subsection \<open>Logout: the claim\<close>

text \<open>
  C6. For a user of the table, \<open>logout\<close> returns; it has set the refresh-token column of
  the user to \<open>null\<close>, so that the table holds no hash for that id, and has added to the
  response, whatever calls it held, the removal of the cookie \<open>Refresh\<close> and then of the
  cookie \<open>Authentication\<close>: a client holds neither afterwards. From then on
  \<open>verifyUserRefreshToken\<close> for that id raises for every token, and goes on raising after
  any requests among which none is a login of that id or a signup that receives it.
\<close>

theorem logout_revokes:
  assumes f: "find (\<lambda>x. user_id x = user_id usr) st = Some row"
  shows "\<exists>st'. logout usr res st =
                 (Inr (), st', res @ [ClearCookie ''Refresh'', ClearCookie ''Authentication''])
           \<and> st' = withHash (user_id usr) None st
           \<and> storedHashes (user_id usr) st' = []
           \<and> (\<exists>row'. find (\<lambda>x. user_id x = user_id usr) st' = Some row'
                      \<and> refreshToken row' = None)
           \<and> jar (res @ [ClearCookie ''Refresh'', ClearCookie ''Authentication'']) j ''Refresh'' = None
           \<and> jar (res @ [ClearCookie ''Refresh'', ClearCookie ''Authentication'']) j
                ''Authentication'' = None
           \<and> (\<forall>token. fst (verifyUserRefreshToken cmp token (user_id usr) st') =
                  Inl (UnauthorizedException ''Refresh token is not valid.''))
           \<and> (\<forall>reqs token. (\<forall>r \<in> set reqs. \<not> issuesFor (user_id usr) r) \<longrightarrow>
                  fst (verifyUserRefreshToken cmp token (user_id usr)
                         (serve sign encrypt cmp penv reqs st')) =
                  Inl (UnauthorizedException ''Refresh token is not valid.''))"
proof -
  let ?st = "withHash (user_id usr) None st"
  let ?res = "res @ [ClearCookie ''Refresh'', ClearCookie ''Authentication'']"
  have l: "logout usr res st = (Inr (), ?st, ?res)"
    unfolding logout_eq f ACCESS_TOKEN_COOKIE_def REFRESH_TOKEN_COOKIE_def by simp
  have e: "storedHashes (user_id usr) ?st = []"
    by (rule storedHashes_withHash_None)
  have uid: "user_id row = user_id usr"
    using find_Some_holds [OF f] by simp
  have r: "\<exists>row'. find (\<lambda>x. user_id x = user_id usr) ?st = Some row' \<and> refreshToken row' = None"
    unfolding find_withHash f using uid by simp
  have j1: "jar ?res j ''Refresh'' = None" and j2: "jar ?res j ''Authentication'' = None"
    using jar_cleared [of res j] unfolding ACCESS_TOKEN_COOKIE_def REFRESH_TOKEN_COOKIE_def
    by simp_all
  have v: "\<forall>token. fst (verifyUserRefreshToken cmp token (user_id usr) ?st) =
                  Inl (UnauthorizedException ''Refresh token is not valid.'')"
    using verify_without_hash [OF e] by blast
  have u: "\<forall>reqs token. (\<forall>r \<in> set reqs. \<not> issuesFor (user_id usr) r) \<longrightarrow>
                  fst (verifyUserRefreshToken cmp token (user_id usr)
                         (serve sign encrypt cmp penv reqs ?st)) =
                  Inl (UnauthorizedException ''Refresh token is not valid.'')"
  proof (intro allI impI)
    fix reqs token
    assume "\<forall>r \<in> set reqs. \<not> issuesFor (user_id usr) r"
    with e have "storedHashes (user_id usr) (serve sign encrypt cmp penv reqs ?st) = []"
      by (rule serve_keeps_empty)
    then show "fst (verifyUserRefreshToken cmp token (user_id usr)
                         (serve sign encrypt cmp penv reqs ?st)) =
                  Inl (UnauthorizedException ''Refresh token is not valid.'')"
      by (rule verify_without_hash)
  qed
  show ?thesis
    by (rule exI [of _ ?st])
       (rule conjI [OF l conjI [OF refl conjI [OF e conjI [OF r conjI [OF j1
          conjI [OF j2 conjI [OF v u]]]]]]])
qed

theorem logout_revokes_witness:
  "find (\<lambda>x. user_id x = user_id bob) [alice, bob] = Some bob
   \<and> logout bob [] [alice, bob] =
       (Inr (), withHash ''u2'' None [alice, bob],
        [ClearCookie ''Refresh'', ClearCookie ''Authentication''])
   \<and> \<not> issuesFor (user_id bob) (Login alice 10 11)
   \<and> \<not> issuesFor (user_id bob) (ValidateUser ''b@x'' ''qw'')
   \<and> fst (verifyUserRefreshToken sampleCompare ''tok'' ''u2''
            (serve sampleSign sampleEncrypt sampleCompare sampleEnv
               [Login alice 10 11, ValidateUser ''b@x'' ''qw'']
               (withHash ''u2'' None [alice, bob]))) =
       Inl (UnauthorizedException ''Refresh token is not valid.'')"
proof -
  have i: "user_id bob = ''u2''" by (simp add: bob_def)
  have a: "user_id alice = ''u1''" by (simp add: alice_def)
  have f: "find (\<lambda>x. user_id x = user_id bob) [alice, bob] = Some bob"
    unfolding i by (simp add: a i)
  have n: "\<forall>r \<in> set [Login alice 10 11, ValidateUser ''b@x'' ''qw'']. \<not> issuesFor (user_id bob) r"
    by (simp add: a i)
  from logout_revokes [OF f, of "[]" Map.empty sampleCompare sampleSign sampleEncrypt sampleEnv]
  obtain st' where
      l: "logout bob [] [alice, bob] =
            (Inr (), st', [] @ [ClearCookie ''Refresh'', ClearCookie ''Authentication''])"
    and s: "st' = withHash (user_id bob) None [alice, bob]"
    and u: "\<forall>reqs token. (\<forall>r \<in> set reqs. \<not> issuesFor (user_id bob) r) \<longrightarrow>
                  fst (verifyUserRefreshToken sampleCompare token (user_id bob)
                         (serve sampleSign sampleEncrypt sampleCompare sampleEnv reqs st')) =
                  Inl (UnauthorizedException ''Refresh token is not valid.'')"
    by blast
  have l': "logout bob [] [alice, bob] =
       (Inr (), withHash ''u2'' None [alice, bob],
        [ClearCookie ''Refresh'', ClearCookie ''Authentication''])"
    using l unfolding s i by simp
  have v: "fst (verifyUserRefreshToken sampleCompare ''tok'' ''u2''
            (serve sampleSign sampleEncrypt sampleCompare sampleEnv
               [Login alice 10 11, ValidateUser ''b@x'' ''qw'']
               (withHash ''u2'' None [alice, bob]))) =
       Inl (UnauthorizedException ''Refresh token is not valid.'')"
    using u [THEN spec [where x = "[Login alice 10 11, ValidateUser ''b@x'' ''qw'']"],
             THEN spec [where x = "''tok''"], THEN mp, OF n]
    unfolding s i .
  have n1: "\<not> issuesFor (user_id bob) (Login alice 10 11)"
    and n2: "\<not> issuesFor (user_id bob) (ValidateUser ''b@x'' ''qw'')"
    by (simp_all add: a i)
  show ?thesis by (rule conjI [OF f conjI [OF l' conjI [OF n1 conjI [OF n2 v]]]])
qed

lemma login_overwrites:
  assumes d: "distinct (map user_id st)"
      and ok: "login sign encrypt penv now1 now2 usr res st = (Inr (), st', res')"
  shows "\<exists>t. generateTokens sign penv now1 now2 (user_id usr) = Inr t
             \<and> storedHashes (user_id usr) st' = [encrypt (tp_refreshToken t)]"
proof -
  from login_InrD [OF ok] obtain t u where
      g: "generateTokens sign penv now1 now2 (user_id usr) = Inr t"
    and f: "find (\<lambda>x. user_id x = user_id usr) st = Some u"
    and s: "st' = withHash (user_id usr) (Some (encrypt (tp_refreshToken t))) st"
    by blast
  from f have m: "user_id usr \<in> set (map user_id st)"
    using find_None_ids [of "user_id usr" st] by simp
  have "storedHashes (user_id usr) st' = [encrypt (tp_refreshToken t)]"
    unfolding s using d m by (rule storedHashes_withHash_distinct)
  with g show ?thesis by blast
qed

lemma signup_overwrites:
  assumes d: "distinct (map user_id st)"
      and ok: "signup sign encrypt penv newId now1 now2 dto res st = (Inr (), st', res')"
  shows "\<exists>t. generateTokens sign penv now1 now2 newId = Inr t
             \<and> storedHashes newId st' = [encrypt (tp_refreshToken t)]"
proof (cases "find (\<lambda>u. email u = dto_email dto) st")
  case (Some x)
  with ok show ?thesis unfolding signup_eq by simp
next
  case None
  obtain r st2 where c: "create encrypt newId dto st = (r, st2)"
    by (cases "create encrypt newId dto st")
  from create_store [OF c] show ?thesis
  proof
    assume "st2 = st \<and> (\<exists>e. r = Inl e)"
    with None c ok show ?thesis unfolding signup_eq by auto
  next
    assume "\<exists>nu. r = Inr nu \<and> st2 = st @ [nu] \<and> user_id nu = newId \<and> refreshToken nu = None
              \<and> newId \<notin> set (map user_id st)"
    then obtain nu where r: "r = Inr nu" and s: "st2 = st @ [nu]" and i: "user_id nu = newId"
        and f: "newId \<notin> set (map user_id st)"
      by blast
    have l: "login sign encrypt penv now1 now2 nu res (st @ [nu]) = (Inr (), st', res')"
      using ok None c r s unfolding signup_eq by simp
    have d': "distinct (map user_id (st @ [nu]))"
      using d f i by simp
    from login_overwrites [OF d' l] show ?thesis unfolding i .
  qed
qed

lemma logout_clears:
  assumes "logout usr res st = (Inr (), st', res')"
  shows "storedHashes (user_id usr) st' = []"
proof (cases "find (\<lambda>u. user_id u = user_id usr) st")
  case None
  with assms show ?thesis unfolding logout_eq by simp
next
  case (Some u)
  with assms have "st' = withHash (user_id usr) None st" unfolding logout_eq by simp
  then show ?thesis by (simp add: storedHashes_withHash_None)
qed

subsection \<open>One hash per user: the claim\<close>

text \<open>
  C7. Starting from a table in which every user id has one row, every sequence of
  requests to the five operations leaves a table in which every user id has one row and,
  with it, at most one stored refresh-token hash. A successful \<open>login\<close> or \<open>signup\<close>
  leaves, as the only hash of the user, the hash of the refresh token it has just issued;
  a successful \<open>logout\<close> leaves none.
\<close>

theorem one_hash_per_user:
  assumes d: "distinct (map user_id st)"
  shows "distinct (map user_id (serve sign encrypt cmp penv reqs st))
       \<and> (\<forall>uid. length (storedHashes uid (serve sign encrypt cmp penv reqs st)) \<le> 1)
       \<and> (\<forall>st' res'. login sign encrypt penv now1 now2 usr res st = (Inr (), st', res') \<longrightarrow>
            (\<exists>t. generateTokens sign penv now1 now2 (user_id usr) = Inr t
                 \<and> storedHashes (user_id usr) st' = [encrypt (tp_refreshToken t)]))
       \<and> (\<forall>st' res'. signup sign encrypt penv newId now1 now2 dto res st = (Inr (), st', res') \<longrightarrow>
            (\<exists>t. generateTokens sign penv now1 now2 newId = Inr t
                 \<and> storedHashes newId st' = [encrypt (tp_refreshToken t)]))
       \<and> (\<forall>st' res'. logout usr res st = (Inr (), st', res') \<longrightarrow>
            storedHashes (user_id usr) st' = [])"
proof -
  have a: "distinct (map user_id (serve sign encrypt cmp penv reqs st))"
    using d by (rule serve_keeps_distinct)
  have b: "\<forall>uid. length (storedHashes uid (serve sign encrypt cmp penv reqs st)) \<le> 1"
    using storedHashes_distinct_le1 [OF a] by blast
  have c: "\<forall>st' res'. login sign encrypt penv now1 now2 usr res st = (Inr (), st', res') \<longrightarrow>
            (\<exists>t. generateTokens sign penv now1 now2 (user_id usr) = Inr t
                 \<and> storedHashes (user_id usr) st' = [encrypt (tp_refreshToken t)])"
    using login_overwrites [OF d] by blast
  have e: "\<forall>st' res'. signup sign encrypt penv newId now1 now2 dto res st = (Inr (), st', res') \<longrightarrow>
            (\<exists>t. generateTokens sign penv now1 now2 newId = Inr t
                 \<and> storedHashes newId st' = [encrypt (tp_refreshToken t)])"
    using signup_overwrites [OF d] by blast
  have f: "\<forall>st' res'. logout usr res st = (Inr (), st', res') \<longrightarrow>
            storedHashes (user_id usr) st' = []"
    using logout_clears by blast
  show ?thesis by (rule conjI [OF a conjI [OF b conjI [OF c conjI [OF e f]]]])
qed

theorem one_hash_per_user_witness:
  "distinct (map user_id [alice, bob])
   \<and> distinct (map user_id (serve sampleSign sampleEncrypt sampleCompare sampleEnv
        [Login alice 10 11, Signup carolDto ''u3'' 10 11, Logout bob] [alice, bob]))
   \<and> length (storedHashes ''u1'' (serve sampleSign sampleEncrypt sampleCompare sampleEnv
        [Login alice 10 11, Signup carolDto ''u3'' 10 11, Logout bob] [alice, bob])) \<le> 1
   \<and> login sampleSign sampleEncrypt sampleEnv 10 11 alice [] [alice, bob] =
     (Inr (), [alice\<lparr>refreshToken := Some ''#u1.sr.5000ms''\<rparr>, bob],
      [Cookie ''Authentication'' ''u1.sa.1000ms''
         \<lparr>httpOnly = True, secure = True, expires = Some 1010\<rparr>,
       Cookie ''Refresh'' ''u1.sr.5000ms''
         \<lparr>httpOnly = True, secure = True, expires = Some 5011\<rparr>])
   \<and> storedHashes (user_id alice) [alice\<lparr>refreshToken := Some ''#u1.sr.5000ms''\<rparr>, bob] =
       [sampleEncrypt ''u1.sr.5000ms'']"
proof -
  have i: "user_id alice = ''u1''" by (simp add: alice_def)
  have j: "user_id bob = ''u2''" by (simp add: bob_def)
  have d: "distinct (map user_id [alice, bob])" by (simp add: i j)
  note t = one_hash_per_user [OF d, of sampleSign sampleEncrypt sampleCompare sampleEnv
      "[Login alice 10 11, Signup carolDto ''u3'' 10 11, Logout bob]" 10 11 alice "[]"
      "''u3''" carolDto]
  have a: "distinct (map user_id (serve sampleSign sampleEncrypt sampleCompare sampleEnv
        [Login alice 10 11, Signup carolDto ''u3'' 10 11, Logout bob] [alice, bob]))"
    by (rule t [THEN conjunct1])
  have b: "length (storedHashes ''u1'' (serve sampleSign sampleEncrypt sampleCompare sampleEnv
        [Login alice 10 11, Signup carolDto ''u3'' 10 11, Logout bob] [alice, bob])) \<le> 1"
    by (rule t [THEN conjunct2, THEN conjunct1, THEN spec])
  from t [THEN conjunct2, THEN conjunct2, THEN conjunct1, THEN spec, THEN spec, THEN mp,
          OF sample_login]
  obtain tk where g: "generateTokens sampleSign sampleEnv 10 11 (user_id alice) = Inr tk"
    and h: "storedHashes (user_id alice) [alice\<lparr>refreshToken := Some ''#u1.sr.5000ms''\<rparr>, bob] =
              [sampleEncrypt (tp_refreshToken tk)]"
    by blast
  from g have "tp_refreshToken tk = ''u1.sr.5000ms''"
    unfolding i sample_tokens by auto
  with h have c: "storedHashes (user_id alice) [alice\<lparr>refreshToken := Some ''#u1.sr.5000ms''\<rparr>, bob] =
       [sampleEncrypt ''u1.sr.5000ms'']"
    by simp
  show ?thesis by (rule conjI [OF d conjI [OF a conjI [OF b conjI [OF sample_login c]]]])
qed

section \<open>Properties of startup and configuration\<close>

subsection \<open>What bootstrap does with the configuration, and generateTokens without it\<close>

lemma find_Some_exists: "\<exists>k \<in> set xs. P k \<Longrightarrow> \<exists>k. find P xs = Some k"
  by (induction xs) auto

lemma bootstrap_missing:
  assumes "find (\<lambda>k. penv k = None) requiredConfig = Some k"
  shows "bootstrap listen penv = Inl (Misconfiguration k)"
  unfolding bootstrap_def createApp_def assms by simp

lemma bootstrap_fails_fast:
  assumes "\<exists>k \<in> set requiredConfig. penv k = None"
  shows "\<exists>k \<in> set requiredConfig. penv k = None \<and> bootstrap listen penv = Inl (Misconfiguration k)"
proof -
  from find_Some_exists [OF assms] obtain k where
    f: "find (\<lambda>k. penv k = None) requiredConfig = Some k" by blast
  from find_Some_holds [OF f] have "penv k = None" and "k \<in> set requiredConfig" by simp_all
  with bootstrap_missing [OF f] show ?thesis by blast
qed

lemma bootstrap_started:
  assumes "bootstrap listen penv = Inr a"
  shows "penv ''JWT_ACCESS_TOKEN_SECRET'' \<noteq> None
       \<and> penv ''JWT_ACCESS_TOKEN_EXPIRATION_MS'' \<noteq> None
       \<and> penv ''JWT_REFRESH_TOKEN_SECRET'' \<noteq> None
       \<and> penv ''JWT_REFRESH_TOKEN_EXPIRATION_MS'' \<noteq> None"
proof (cases "find (\<lambda>k. penv k = None) requiredConfig")
  case (Some k)
  from bootstrap_missing [OF Some] assms show ?thesis by simp
next
  case None
  then have "\<forall>k \<in> set requiredConfig. penv k \<noteq> None"
    by (simp add: find_None_iff)
  then show ?thesis by (simp add: requiredConfig_def)
qed

lemma generateTokens_absent_raises:
  assumes s: "\<forall>p s. \<exists>e. sign p \<lparr>secret = s, expiresIn = ''undefinedms''\<rparr> = Inl e"
      and a: "penv ''JWT_ACCESS_TOKEN_EXPIRATION_MS'' = None
              \<or> penv ''JWT_REFRESH_TOKEN_EXPIRATION_MS'' = None"
  shows "\<exists>e. generateTokens sign penv now1 now2 uid = Inl e"
proof (cases "sign \<lparr>userId = uid\<rparr>
             \<lparr>secret = penv ''JWT_ACCESS_TOKEN_SECRET'',
              expiresIn = toString_js (penv ''JWT_ACCESS_TOKEN_EXPIRATION_MS'') @ ''ms''\<rparr>")
  case (Inl e)
  then show ?thesis unfolding generateTokens_def Let_def by simp
next
  case (Inr atok)
  have na: "penv ''JWT_ACCESS_TOKEN_EXPIRATION_MS'' \<noteq> None"
  proof
    assume n: "penv ''JWT_ACCESS_TOKEN_EXPIRATION_MS'' = None"
    from s obtain e where
      "sign \<lparr>userId = uid\<rparr>
         \<lparr>secret = penv ''JWT_ACCESS_TOKEN_SECRET'', expiresIn = ''undefinedms''\<rparr> = Inl e"
      by blast
    with Inr show False by (simp add: n toString_js_def)
  qed
  with a have nr: "penv ''JWT_REFRESH_TOKEN_EXPIRATION_MS'' = None" by simp
  from s obtain e where
    "sign \<lparr>userId = uid\<rparr>
       \<lparr>secret = penv ''JWT_REFRESH_TOKEN_SECRET'', expiresIn = ''undefinedms''\<rparr> = Inl e"
    by blast
  then have "sign \<lparr>userId = uid\<rparr>
             \<lparr>secret = penv ''JWT_REFRESH_TOKEN_SECRET'',
              expiresIn = toString_js (penv ''JWT_REFRESH_TOKEN_EXPIRATION_MS'') @ ''ms''\<rparr> = Inl e"
    by (simp add: nr toString_js_def)
  with Inr show ?thesis unfolding generateTokens_def Let_def by simp
qed

subsection \<open>Configuration: the claim\<close>

text \<open>
  C8. With the creation of the application modelled from the spec, \<open>bootstrap\<close> fails fast:
  for every environment in which one of the four configuration values is missing it
  raises \<open>Misconfiguration\<close> for a missing value, whatever \<open>listen\<close> would do, so the
  service does not start; a service that has started has all four values, and no token
  generation in it meets an absent lifetime. \<open>generateTokens\<close> itself, given an absent
  lifetime, hands the signer the lifetime \<open>undefinedms\<close>; with a signer that rejects it,
  \<open>generateTokens\<close> raises and returns no invalid expiry.
\<close>

theorem startup_fails_fast:
  "((\<exists>k \<in> set requiredConfig. penv k = None) \<longrightarrow>
      (\<exists>k \<in> set requiredConfig. penv k = None \<and> bootstrap listen penv = Inl (Misconfiguration k)))
   \<and> (bootstrap listen penv = Inr a \<longrightarrow>
        penv ''JWT_ACCESS_TOKEN_SECRET'' \<noteq> None
        \<and> penv ''JWT_ACCESS_TOKEN_EXPIRATION_MS'' \<noteq> None
        \<and> penv ''JWT_REFRESH_TOKEN_SECRET'' \<noteq> None
        \<and> penv ''JWT_REFRESH_TOKEN_EXPIRATION_MS'' \<noteq> None)
   \<and> ((\<forall>p s. \<exists>e. sign p \<lparr>secret = s, expiresIn = ''undefinedms''\<rparr> = Inl e)
        \<and> (penv ''JWT_ACCESS_TOKEN_EXPIRATION_MS'' = None
            \<or> penv ''JWT_REFRESH_TOKEN_EXPIRATION_MS'' = None) \<longrightarrow>
        (\<exists>e. generateTokens sign penv now1 now2 uid = Inl e))"
proof -
  have a: "(\<exists>k \<in> set requiredConfig. penv k = None) \<longrightarrow>
      (\<exists>k \<in> set requiredConfig. penv k = None \<and> bootstrap listen penv = Inl (Misconfiguration k))"
    by (rule impI) (rule bootstrap_fails_fast)
  have b: "bootstrap listen penv = Inr a \<longrightarrow>
        penv ''JWT_ACCESS_TOKEN_SECRET'' \<noteq> None
        \<and> penv ''JWT_ACCESS_TOKEN_EXPIRATION_MS'' \<noteq> None
        \<and> penv ''JWT_REFRESH_TOKEN_SECRET'' \<noteq> None
        \<and> penv ''JWT_REFRESH_TOKEN_EXPIRATION_MS'' \<noteq> None"
    by (rule impI) (rule bootstrap_started)
  have c: "(\<forall>p s. \<exists>e. sign p \<lparr>secret = s, expiresIn = ''undefinedms''\<rparr> = Inl e)
        \<and> (penv ''JWT_ACCESS_TOKEN_EXPIRATION_MS'' = None
            \<or> penv ''JWT_REFRESH_TOKEN_EXPIRATION_MS'' = None) \<longrightarrow>
        (\<exists>e. generateTokens sign penv now1 now2 uid = Inl e)"
  proof
    assume h: "(\<forall>p s. \<exists>e. sign p \<lparr>secret = s, expiresIn = ''undefinedms''\<rparr> = Inl e)
        \<and> (penv ''JWT_ACCESS_TOKEN_EXPIRATION_MS'' = None
            \<or> penv ''JWT_REFRESH_TOKEN_EXPIRATION_MS'' = None)"
    show "\<exists>e. generateTokens sign penv now1 now2 uid = Inl e"
      by (rule generateTokens_absent_raises [OF conjunct1 [OF h] conjunct2 [OF h]])
  qed
  show ?thesis by (rule conjI [OF a conjI [OF b c]])
qed

lemma sample_bootstrap:
  "bootstrap sampleListen sampleEnv =
     Inr \<lparr>swaggerPath = Some ''api'', middleware = [''cookieParser''],
          globalPipes = [''ValidationPipe''], globalFilters = [''AllExceptionFilter''],
          port = Some 3000\<rparr>"
proof -
  have "find (\<lambda>k. sampleEnv k = None) requiredConfig = None"
    by (simp add: requiredConfig_def sampleEnv_def)
  then show ?thesis
    unfolding bootstrap_def createApp_def by (simp add: sampleListen_def)
qed

theorem startup_fails_fast_witness:
  "emptyEnv ''JWT_ACCESS_TOKEN_SECRET'' = None
   \<and> (\<exists>k. bootstrap sampleListen emptyEnv = Inl (Misconfiguration k))
   \<and> bootstrap sampleListen sampleEnv =
       Inr \<lparr>swaggerPath = Some ''api'', middleware = [''cookieParser''],
            globalPipes = [''ValidationPipe''], globalFilters = [''AllExceptionFilter''],
            port = Some 3000\<rparr>
   \<and> sampleEnv ''JWT_REFRESH_TOKEN_EXPIRATION_MS'' \<noteq> None
   \<and> secretsEnv ''JWT_ACCESS_TOKEN_EXPIRATION_MS'' = None
   \<and> (\<exists>e. generateTokens strictSign secretsEnv 10 11 ''u1'' = Inl e)"
proof -
  have k: "emptyEnv ''JWT_ACCESS_TOKEN_SECRET'' = None" by (simp add: emptyEnv_def)
  have m: "\<exists>k \<in> set requiredConfig. emptyEnv k = None"
  proof
    show "emptyEnv ''JWT_ACCESS_TOKEN_SECRET'' = None" by (rule k)
    show "''JWT_ACCESS_TOKEN_SECRET'' \<in> set requiredConfig" by (simp add: requiredConfig_def)
  qed
  from startup_fails_fast [where penv = emptyEnv and listen = sampleListen,
         THEN conjunct1, THEN mp, OF m]
  have f: "\<exists>k. bootstrap sampleListen emptyEnv = Inl (Misconfiguration k)" by blast
  from startup_fails_fast [where penv = sampleEnv and listen = sampleListen,
         THEN conjunct2, THEN conjunct1, THEN mp, OF sample_bootstrap]
  have p: "sampleEnv ''JWT_REFRESH_TOKEN_EXPIRATION_MS'' \<noteq> None" by simp
  have n: "secretsEnv ''JWT_ACCESS_TOKEN_EXPIRATION_MS'' = None"
    by (simp add: secretsEnv_def)
  have s: "\<forall>p s. \<exists>e. strictSign p \<lparr>secret = s, expiresIn = ''undefinedms''\<rparr> = Inl e"
    by (simp add: strictSign_def split: option.splits)
  have g: "\<exists>e. generateTokens strictSign secretsEnv 10 11 ''u1'' = Inl e"
    by (rule startup_fails_fast [where penv = secretsEnv and sign = strictSign,
          THEN conjunct2, THEN conjunct2, THEN mp, OF conjI [OF s disjI1 [OF n]]])
  show ?thesis
    by (rule conjI [OF k conjI [OF f conjI [OF sample_bootstrap conjI [OF p conjI [OF n g]]]]])
qed

end
